theory Spec2Isabelle
  imports Complex_Main "HOL-Library.AList"
begin

section \<open>Arrays, errors and numpy broadcasting\<close>

text \<open>
  The module \<^verbatim>\<open>smtk/residuals/gmpe_residuals.py\<close> computes with numpy arrays of
  floats. A one-dimensional array is modelled as a list of real numbers: the arithmetic
  is the exact arithmetic that the floating-point operations approximate. numpy's
  division of arrays does not raise at a zero divisor (it yields \<open>inf\<close> or \<open>nan\<close>), which
  a real number cannot express, so a statement that depends on the value of such a
  quotient assumes that the divisor is not zero. Python's own float division, which
  raises \<open>ZeroDivisionError\<close>, is modelled with that error.
\<close>

type_synonym ndarray = "real list"

datatype py_error =
  ValueError | TypeError | KeyError | IndexError | ZeroDivisionError | AttributeError
  | LinAlgError

definition ebind :: "py_error + 'a \<Rightarrow> ('a \<Rightarrow> py_error + 'b) \<Rightarrow> py_error + 'b" where
  "ebind m f = (case m of Inl e \<Rightarrow> Inl e | Inr v \<Rightarrow> f v)"

text \<open>
  A \<^verbatim>\<open>for\<close> loop whose body may raise: \<open>traverse\<close> collects the results of the body
  (a list built by the loop), \<open>efold\<close> threads the state the body updates. The first
  error ends the loop.
\<close>

fun traverse :: "('a \<Rightarrow> py_error + 'b) \<Rightarrow> 'a list \<Rightarrow> py_error + 'b list" where
  "traverse f [] = Inr []"
| "traverse f (x # xs) = ebind (f x) (\<lambda>y. ebind (traverse f xs) (\<lambda>ys. Inr (y # ys)))"

fun efold :: "('a \<Rightarrow> 's \<Rightarrow> py_error + 's) \<Rightarrow> 'a list \<Rightarrow> 's \<Rightarrow> py_error + 's" where
  "efold f [] s = Inr s"
| "efold f (x # xs) s = ebind (f x s) (efold f xs)"

text \<open>
  An element-wise binary operation on two one-dimensional arrays follows numpy's
  broadcasting: equal lengths combine position by position, an array of length one is
  stretched to the other's length, and any other pair of lengths raises \<open>ValueError\<close>.
\<close>

definition broadcast2 :: "(real \<Rightarrow> real \<Rightarrow> real) \<Rightarrow> ndarray \<Rightarrow> ndarray \<Rightarrow> py_error + ndarray" where
  "broadcast2 f xs ys =
     (if length xs = length ys then Inr (map2 f xs ys)
      else if length xs = 1 then Inr (map (f (xs ! 0)) ys)
      else if length ys = 1 then Inr (map (\<lambda>x. f x (ys ! 0)) xs)
      else Inl ValueError)"

definition np_add :: "ndarray \<Rightarrow> ndarray \<Rightarrow> py_error + ndarray" where
  "np_add = broadcast2 (+)"

definition np_sub :: "ndarray \<Rightarrow> ndarray \<Rightarrow> py_error + ndarray" where
  "np_sub = broadcast2 (-)"

definition np_div :: "ndarray \<Rightarrow> ndarray \<Rightarrow> py_error + ndarray" where
  "np_div = broadcast2 (/)"

text \<open>The element that position \<open>i\<close> of a broadcast result reads from an operand.\<close>

definition bidx :: "ndarray \<Rightarrow> nat \<Rightarrow> real" where
  "bidx xs i = (if length xs = 1 then xs ! 0 else xs ! i)"

section \<open>Residual calculator\<close>

text \<open>
  \<^verbatim>\<open>Residuals._get_random_effects_residuals(obs, mean, inter, intra, normalise)\<close>:
  \<^verbatim>\<open>
    nvals = float(len(mean))
    inter_res = ((inter ** 2.) * sum(obs - mean)) /
        (nvals * (inter ** 2.) + (intra ** 2.))
    intra_res = obs - (mean + inter_res)
    if normalise:
        return inter_res / inter, intra_res / intra
    return inter_res, intra_res
  \<close>
\<close>

definition get_random_effects_residuals ::
  "ndarray \<Rightarrow> ndarray \<Rightarrow> ndarray \<Rightarrow> ndarray \<Rightarrow> bool \<Rightarrow> py_error + (ndarray \<times> ndarray)" where
  "get_random_effects_residuals obs mean inter_std intra_std normalise =
     (let nvals = real (length mean) in
      ebind (np_sub obs mean) (\<lambda>d.
      ebind (np_add (map (\<lambda>t. nvals * t\<^sup>2) inter_std) (map (\<lambda>p. p\<^sup>2) intra_std)) (\<lambda>den.
      ebind (np_div (map (\<lambda>t. t\<^sup>2 * sum_list d) inter_std) den) (\<lambda>inter_res.
      ebind (np_add mean inter_res) (\<lambda>m.
      ebind (np_sub obs m) (\<lambda>intra_res.
      if normalise
      then ebind (np_div inter_res inter_std) (\<lambda>a.
           ebind (np_div intra_res intra_std) (\<lambda>b. Inr (a, b)))
      else Inr (inter_res, intra_res)))))))"

text \<open>
  The spec's formula for the inter-event residual, \<open>\<eta> = \<tau>\<^sup>2 \<cdot> \<Sigma>(y - m) / (n \<cdot> \<tau>\<^sup>2 + \<phi>\<^sup>2)\<close>,
  with \<open>s\<close> the sum of the differences of log-observation and mean.
\<close>

definition eta_spec :: "real \<Rightarrow> real \<Rightarrow> real \<Rightarrow> real \<Rightarrow> real" where
  "eta_spec tau phi n s = tau\<^sup>2 * s / (n * tau\<^sup>2 + phi\<^sup>2)"

section \<open>Data model\<close>

text \<open>
  A model (GMPE) is known by its name, a string. An intensity measure type is a string
  such as \<^verbatim>\<open>"PGA"\<close> or \<^verbatim>\<open>"SA(0.2)"\<close>; the module asks two things of it, whether it
  contains \<^verbatim>\<open>"SA("\<close> and, if so, which period \<^verbatim>\<open>imt.from_string\<close> (of the hazard
  library) reads from it. The model keeps the string in this parsed form: \<open>SA period\<close>
  for a spectral ordinate and \<open>Scalar name\<close> for every other name (the key \<^verbatim>\<open>"All"\<close>
  of the log-likelihood table included).

  A dictionary from residual type (\<^verbatim>\<open>"Total"\<close>, \<^verbatim>\<open>"Inter event"\<close>, \<^verbatim>\<open>"Intra event"\<close>)
  or \<^verbatim>\<open>"Mean"\<close> to an array is an association list in insertion order. The nested
  dictionaries \<^verbatim>\<open>d[gmpe][imtx]\<close> are maps on pairs; a missing key raises \<open>KeyError\<close>,
  and the entry of a pair is \<open>None\<close> (Python's \<^verbatim>\<open>None\<close>) or such a dictionary.
\<close>

type_synonym gmpe = string

datatype imt = SA real | Scalar string

type_synonym arrays = "(string \<times> ndarray) list"

definition lookup :: "('k \<rightharpoonup> 'v) \<Rightarrow> 'k \<Rightarrow> py_error + 'v" where
  "lookup m k = (case m k of None \<Rightarrow> Inl KeyError | Some v \<Rightarrow> Inr v)"

definition getitem :: "('k \<times> 'v) list \<Rightarrow> 'k \<Rightarrow> py_error + 'v" where
  "getitem d k = lookup (map_of d) k"

text \<open>\<^verbatim>\<open>d[key]\<close> where \<^verbatim>\<open>d\<close> may be \<^verbatim>\<open>None\<close>: subscripting \<^verbatim>\<open>None\<close> raises \<open>TypeError\<close>.\<close>

definition subscript :: "arrays option \<Rightarrow> string \<Rightarrow> py_error + ndarray" where
  "subscript d k = (case d of None \<Rightarrow> Inl TypeError | Some kvs \<Rightarrow> getitem kvs k)"

text \<open>\<^verbatim>\<open>not d\<close>: true of \<^verbatim>\<open>None\<close> and of the empty dictionary.\<close>

definition falsy :: "arrays option \<Rightarrow> bool" where
  "falsy d = (case d of None \<Rightarrow> True | Some kvs \<Rightarrow> kvs = [])"

text \<open>
  \<^verbatim>\<open>store[gmpe][imtx][res_type].extend(xs)\<close> on one of the nested stores.
\<close>

definition append_to ::
  "((gmpe \<times> imt) \<rightharpoonup> arrays option) \<Rightarrow> gmpe \<times> imt \<Rightarrow> string \<Rightarrow> ndarray
     \<Rightarrow> py_error + ((gmpe \<times> imt) \<rightharpoonup> arrays option)" where
  "append_to store k res_type xs =
     ebind (lookup store k) (\<lambda>d.
       case d of None \<Rightarrow> Inl TypeError
       | Some kvs \<Rightarrow>
           if map_of kvs res_type = None then Inl KeyError
           else Inr (store(k \<mapsto> Some (AList.map_entry res_type (\<lambda>l. l @ xs) kvs))))"

text \<open>
  The loops \<^verbatim>\<open>for gmpe in ...: for imtx in ...: d[gmpe][imtx] = f(gmpe, imtx)\<close> that build
  a nested dictionary, the body possibly raising.
\<close>

definition tabulate2 ::
  "'a list \<Rightarrow> 'b list \<Rightarrow> ('a \<Rightarrow> 'b \<Rightarrow> py_error + 'v) \<Rightarrow> py_error + (('a \<times> 'b) \<rightharpoonup> 'v)" where
  "tabulate2 ks js f =
     ebind (traverse (\<lambda>(k, j). ebind (f k j) (\<lambda>v. Inr ((k, j), v))) (List.product ks js))
       (\<lambda>kvs. Inr (map_of kvs))"

text \<open>
  The rupture, site and distance object \<^verbatim>\<open>context["Ctx"]\<close>; of its attributes the
  module itself reads and writes \<^verbatim>\<open>rake\<close> only.
\<close>

record ctx =
  rake :: "real option"
  attributes :: "(string \<times> ndarray) list"

record event_context =
  Ctx :: ctx
  Num_Sites :: nat
  Observations :: "imt \<rightharpoonup> ndarray"
  Expected :: "(gmpe \<times> imt) \<rightharpoonup> arrays option"
  Residual :: "(gmpe \<times> imt) \<rightharpoonup> arrays option"

text \<open>
  A model instance of the hazard library, as far as the module uses it: its declared
  standard deviation types, the periods of the spectral coefficients of its
  \<^verbatim>\<open>COEFFS\<close> table, and its prediction \<^verbatim>\<open>get_mean_and_stddevs\<close>, which returns the mean
  array and one array per requested type.
\<close>

record gsim =
  DEFINED_FOR_STANDARD_DEVIATION_TYPES :: "string list"
  sa_periods :: "real list"
  get_mean_and_stddevs :: "ctx \<Rightarrow> imt \<Rightarrow> string list \<Rightarrow> ndarray \<times> ndarray list"

record residuals_obj =
  gmpe_list :: "(gmpe \<times> gsim) list"
  imts :: "imt list"
  types :: "(gmpe \<times> imt) \<rightharpoonup> string list"
  residuals :: "(gmpe \<times> imt) \<rightharpoonup> arrays option"
  modelled :: "(gmpe \<times> imt) \<rightharpoonup> arrays option"
  unique_indices :: "(gmpe \<times> imt) \<rightharpoonup> nat list list"
  gmpe_sa_limits :: "gmpe \<rightharpoonup> real \<times> real"
  contexts :: "event_context list option"

section \<open>Setup: \<^verbatim>\<open>Residuals.__init__\<close>\<close>

text \<open>
  \<^verbatim>\<open>
    pers = [sa.period for sa in getattr(gmpe_i, c).sa_coeffs]
    min_per, max_per = (min(pers), max(pers))
    ...
    for imtx in self.imts:
        if "SA(" in imtx:
            period = imt.from_string(imtx).period
            if period < min_per or period > max_per:
                gmpe_dict_1[imtx] = None
                gmpe_dict_2[imtx] = None
                continue
        gmpe_dict_1[imtx] = {}
        gmpe_dict_2[imtx] = {}
        self.unique_indices[gmpe][imtx] = []
        self.types[gmpe][imtx] = []
        for res_type in self.gmpe_list[gmpe].DEFINED_FOR_STANDARD_DEVIATION_TYPES:
            gmpe_dict_1[imtx][res_type] = []
            gmpe_dict_2[imtx][res_type] = []
            self.types[gmpe][imtx].append(res_type)
        gmpe_dict_2[imtx]["Mean"] = []
  \<close>
  The list of models is taken as resolved (\<^verbatim>\<open>_check_gsim_list\<close> consults the hazard
  library's catalogue). \<^verbatim>\<open>min\<close> of an empty list raises \<open>ValueError\<close>.
\<close>

definition outside_period_range :: "imt \<Rightarrow> real \<times> real \<Rightarrow> bool" where
  "outside_period_range i rng =
     (case i of SA period \<Rightarrow> period < fst rng \<or> period > snd rng | Scalar s \<Rightarrow> False)"

definition period_limits :: "gsim \<Rightarrow> py_error + real \<times> real" where
  "period_limits m =
     (case sa_periods m of [] \<Rightarrow> Inl ValueError | p # ps \<Rightarrow> Inr (fold min ps p, fold max ps p))"

definition empty_store :: "string list \<Rightarrow> arrays" where
  "empty_store ts = map (\<lambda>t. (t, [])) ts"

definition Residuals_init :: "(gmpe \<times> gsim) list \<Rightarrow> imt list \<Rightarrow> py_error + residuals_obj" where
  "Residuals_init gl ims =
     ebind (traverse (\<lambda>(g, m). ebind (period_limits m) (\<lambda>rng. Inr (g, rng))) gl) (\<lambda>lims.
     let applicable = (\<lambda>g i. case map_of lims g of None \<Rightarrow> False
                              | Some rng \<Rightarrow> \<not> outside_period_range i rng)
     in Inr \<lparr>
       gmpe_list = gl,
       imts = ims,
       types = (\<lambda>(g, i). case map_of gl g of None \<Rightarrow> None
                 | Some m \<Rightarrow> if i \<in> set ims \<and> applicable g i
                            then Some (DEFINED_FOR_STANDARD_DEVIATION_TYPES m) else None),
       residuals = (\<lambda>(g, i). case map_of gl g of None \<Rightarrow> None
                 | Some m \<Rightarrow> if i \<in> set ims
                            then Some (if applicable g i
                                       then Some (empty_store (DEFINED_FOR_STANDARD_DEVIATION_TYPES m))
                                       else None)
                            else None),
       modelled = (\<lambda>(g, i). case map_of gl g of None \<Rightarrow> None
                 | Some m \<Rightarrow> if i \<in> set ims
                            then Some (if applicable g i
                                       then Some (empty_store (DEFINED_FOR_STANDARD_DEVIATION_TYPES m)
                                                  @ [(''Mean'', [])])
                                       else None)
                            else None),
       unique_indices = (\<lambda>(g, i). case map_of gl g of None \<Rightarrow> None
                 | Some m \<Rightarrow> if i \<in> set ims \<and> applicable g i then Some [] else None),
       gmpe_sa_limits = map_of lims,
       contexts = None \<rparr>)"

section \<open>Expected-motion calculator\<close>

text \<open>
  \<^verbatim>\<open>
    if not context["Ctx"].rake:
        context["Ctx"].rake = 0.0
    ...
    for gmpe in self.gmpe_list:
        for imtx in self.imts:
            gsim = self.gmpe_list[gmpe]
            if "SA(" in imtx:
                period = imt.from_string(imtx).period
                if period < self.gmpe_sa_limits[gmpe][0] or period > self.gmpe_sa_limits[gmpe][1]:
                    expected[gmpe][imtx] = None
                    continue
            mean, stddev = gsim.get_mean_and_stddevs(..., imt.from_string(imtx), self.types[gmpe][imtx])
            expected[gmpe][imtx]["Mean"] = mean
            for i, res_type in enumerate(self.types[gmpe][imtx]):
                expected[gmpe][imtx][res_type] = stddev[i]
  \<close>
\<close>

definition expected_pair :: "residuals_obj \<Rightarrow> ctx \<Rightarrow> gmpe \<Rightarrow> imt \<Rightarrow> py_error + arrays option" where
  "expected_pair self c g i =
     ebind (getitem (gmpe_list self) g) (\<lambda>gs.
     ebind (case i of
              SA period \<Rightarrow> ebind (lookup (gmpe_sa_limits self) g)
                             (\<lambda>rng. Inr (period < fst rng \<or> period > snd rng))
            | Scalar s \<Rightarrow> Inr False) (\<lambda>outside.
     if outside then Inr None
     else ebind (lookup (types self) (g, i)) (\<lambda>ts.
          case get_mean_and_stddevs gs c i ts of
            (mean, stddev) \<Rightarrow>
              if length stddev < length ts then Inl IndexError
              else Inr (Some ((''Mean'', mean) # zip ts stddev)))))"

definition get_expected_motions :: "residuals_obj \<Rightarrow> event_context \<Rightarrow> py_error + event_context" where
  "get_expected_motions self cx =
     (let c = (if rake (Ctx cx) = None \<or> rake (Ctx cx) = Some 0
               then (Ctx cx)\<lparr>rake := Some 0\<rparr> else Ctx cx)
      in ebind (tabulate2 (map fst (gmpe_list self)) (imts self) (expected_pair self c))
           (\<lambda>e. Inr (cx\<lparr>Ctx := c, Expected := e\<rparr>)))"

section \<open>Residual calculator: \<^verbatim>\<open>calculate_residuals\<close>\<close>

text \<open>
  \<^verbatim>\<open>
    for gmpe in self.gmpe_list:
        for imtx in self.imts:
            obs = np.log(context["Observations"][imtx])
            if not context["Expected"][gmpe][imtx]:
                residual[gmpe][imtx] = None
                continue
            mean = context["Expected"][gmpe][imtx]["Mean"]
            total_stddev = context["Expected"][gmpe][imtx]["Total"]
            residual[gmpe][imtx]["Total"] = (obs - mean) / total_stddev
            if "Inter event" in self.residuals[gmpe][imtx].keys():
                inter, intra = self._get_random_effects_residuals(
                    obs, mean,
                    context["Expected"][gmpe][imtx]["Inter event"],
                    context["Expected"][gmpe][imtx]["Intra event"], normalise)
                residual[gmpe][imtx]["Inter event"] = inter
                residual[gmpe][imtx]["Intra event"] = intra
  \<close>
\<close>

definition calculate_residuals_pair ::
  "residuals_obj \<Rightarrow> event_context \<Rightarrow> bool \<Rightarrow> gmpe \<Rightarrow> imt \<Rightarrow> py_error + arrays option" where
  "calculate_residuals_pair self cx normalise g i =
     ebind (lookup (Observations cx) i) (\<lambda>observation.
     let obs = map ln observation in
     ebind (lookup (Expected cx) (g, i)) (\<lambda>e.
     if falsy e then Inr None
     else ebind (subscript e ''Mean'') (\<lambda>mean.
          ebind (subscript e ''Total'') (\<lambda>total_stddev.
          ebind (np_sub obs mean) (\<lambda>d.
          ebind (np_div d total_stddev) (\<lambda>total.
          ebind (lookup (residuals self) (g, i)) (\<lambda>r.
          case r of
            None \<Rightarrow> Inl AttributeError
          | Some kvs \<Rightarrow>
              if ''Inter event'' \<in> set (map fst kvs)
              then ebind (subscript e ''Inter event'') (\<lambda>inter_std.
                   ebind (subscript e ''Intra event'') (\<lambda>intra_std.
                   ebind (get_random_effects_residuals obs mean inter_std intra_std normalise)
                     (\<lambda>(inter_res, intra_res).
                        Inr (Some [(''Total'', total), (''Inter event'', inter_res),
                                   (''Intra event'', intra_res)]))))
              else Inr (Some [(''Total'', total)]))))))))"

definition calculate_residuals ::
  "residuals_obj \<Rightarrow> event_context \<Rightarrow> bool \<Rightarrow> py_error + event_context" where
  "calculate_residuals self cx normalise =
     ebind (tabulate2 (map fst (gmpe_list self)) (imts self)
              (calculate_residuals_pair self cx normalise))
       (\<lambda>r. Inr (cx\<lparr>Residual := r\<rparr>))"

section \<open>Residual aggregator: \<^verbatim>\<open>get_residuals\<close>\<close>

text \<open>
  The body of the loop over the residual types of one (model, IMT) pair:
  \<^verbatim>\<open>
    for res_type in self.residuals[gmpe][imtx].keys():
        if res_type == "Inter event":
            inter_ev = context["Residual"][gmpe][imtx][res_type]
            if np.all(np.fabs(inter_ev - inter_ev[0]) < 1.0E-12):
                self.residuals[gmpe][imtx][res_type].append(inter_ev[0])
                self.unique_indices[gmpe][imtx].append(np.array([0]))
            else:
                self.residuals[gmpe][imtx][res_type].extend(inter_ev.tolist())
                self.unique_indices[gmpe][imtx].append(np.arange(len(inter_ev)))
        else:
            self.residuals[gmpe][imtx][res_type].extend(
                context["Residual"][gmpe][imtx][res_type].tolist())
        self.modelled[gmpe][imtx][res_type].extend(
            context["Expected"][gmpe][imtx][res_type].tolist())
  \<close>
  Indexing an empty array with \<^verbatim>\<open>[0]\<close> raises \<open>IndexError\<close>.
\<close>

definition is_constant :: "ndarray \<Rightarrow> bool" where
  "is_constant inter_ev = list_all (\<lambda>x. \<bar>x - inter_ev ! 0\<bar> < 1 / 10 ^ 12) inter_ev"

definition aggregate_type ::
  "event_context \<Rightarrow> gmpe \<times> imt \<Rightarrow> string \<Rightarrow> residuals_obj \<Rightarrow> py_error + residuals_obj" where
  "aggregate_type cx k res_type self =
     ebind (lookup (Residual cx) k) (\<lambda>cres.
     ebind (subscript cres res_type) (\<lambda>v.
     ebind (if res_type = ''Inter event''
            then if v = [] then Inl IndexError
                 else if is_constant v
                 then ebind (append_to (residuals self) k res_type [v ! 0]) (\<lambda>r.
                      ebind (lookup (unique_indices self) k) (\<lambda>u.
                      Inr (self\<lparr>residuals := r,
                                 unique_indices := (unique_indices self)(k \<mapsto> u @ [[0]])\<rparr>)))
                 else ebind (append_to (residuals self) k res_type v) (\<lambda>r.
                      ebind (lookup (unique_indices self) k) (\<lambda>u.
                      Inr (self\<lparr>residuals := r,
                                 unique_indices := (unique_indices self)(k \<mapsto> u @ [[0..<length v]])\<rparr>)))
            else ebind (append_to (residuals self) k res_type v) (\<lambda>r.
                 Inr (self\<lparr>residuals := r\<rparr>))) (\<lambda>self1.
     ebind (lookup (Expected cx) k) (\<lambda>cexp.
     ebind (subscript cexp res_type) (\<lambda>e.
     ebind (append_to (modelled self1) k res_type e) (\<lambda>m.
     Inr (self1\<lparr>modelled := m\<rparr>)))))))"

text \<open>
  The body of the loop over the pairs, for one context:
  \<^verbatim>\<open>
    if not context["Residual"][gmpe][imtx]:
        continue
    for res_type in self.residuals[gmpe][imtx].keys():
        ...
    self.modelled[gmpe][imtx]["Mean"].extend(
        context["Expected"][gmpe][imtx]["Mean"].tolist())
  \<close>
\<close>

definition aggregate_pair ::
  "event_context \<Rightarrow> gmpe \<times> imt \<Rightarrow> residuals_obj \<Rightarrow> py_error + residuals_obj" where
  "aggregate_pair cx k self =
     ebind (lookup (Residual cx) k) (\<lambda>cres.
     if falsy cres then Inr self
     else ebind (lookup (residuals self) k) (\<lambda>d.
          case d of
            None \<Rightarrow> Inl AttributeError
          | Some kvs \<Rightarrow>
              ebind (efold (aggregate_type cx k) (map fst kvs) self) (\<lambda>self1.
              ebind (lookup (Expected cx) k) (\<lambda>cexp.
              ebind (subscript cexp ''Mean'') (\<lambda>mean.
              ebind (append_to (modelled self1) k ''Mean'' mean) (\<lambda>m.
              Inr (self1\<lparr>modelled := m\<rparr>)))))))"

text \<open>
  \<^verbatim>\<open>get_residuals(database, nodal_plane_index, component, normalise)\<close>. The contexts are
  those that \<^verbatim>\<open>database.get_contexts\<close> returns; \<^verbatim>\<open>convert_accel_units\<close> (from cm/s/s to
  g) is a function of \<^verbatim>\<open>smtk.sm_utils\<close> and is a parameter. For each context: the
  observations of the acceleration IMTs are converted, the expected motions and the
  residuals are computed, every pair is aggregated, and the context is appended to
  \<^verbatim>\<open>self.contexts\<close>. The final conversion of the accumulated lists to arrays changes
  no element.
\<close>

definition is_accel :: "imt \<Rightarrow> bool" where
  "is_accel i = (case i of SA period \<Rightarrow> True | Scalar s \<Rightarrow> s = ''PGA'')"

definition convert_observations :: "(ndarray \<Rightarrow> ndarray) \<Rightarrow> imt \<Rightarrow> event_context \<Rightarrow> py_error + event_context" where
  "convert_observations convert_accel_units a_imt cx =
     ebind (lookup (Observations cx) a_imt) (\<lambda>v.
     Inr (cx\<lparr>Observations := (Observations cx)(a_imt \<mapsto> convert_accel_units v)\<rparr>))"

definition process_context ::
  "(ndarray \<Rightarrow> ndarray) \<Rightarrow> bool \<Rightarrow> event_context \<Rightarrow> residuals_obj \<Rightarrow> py_error + residuals_obj" where
  "process_context convert_accel_units normalise cx self =
     ebind (efold (convert_observations convert_accel_units) (filter is_accel (imts self)) cx) (\<lambda>cx1.
     ebind (get_expected_motions self cx1) (\<lambda>cx2.
     ebind (calculate_residuals self cx2 normalise) (\<lambda>cx3.
     ebind (efold (aggregate_pair cx3)
              (List.product (map fst (gmpe_list self)) (remdups (imts self))) self) (\<lambda>self1.
     case contexts self1 of
       None \<Rightarrow> Inl AttributeError
     | Some cs \<Rightarrow> Inr (self1\<lparr>contexts := Some (cs @ [cx3])\<rparr>)))))"

definition get_residuals ::
  "(ndarray \<Rightarrow> ndarray) \<Rightarrow> residuals_obj \<Rightarrow> event_context list \<Rightarrow> bool \<Rightarrow> py_error + residuals_obj" where
  "get_residuals convert_accel_units self database_contexts normalise =
     efold (process_context convert_accel_units normalise) database_contexts
       (self\<lparr>contexts := Some []\<rparr>)"

section \<open>Example inputs\<close>

text \<open>
  A model that declares all three standard deviation types, valid for periods from 0.1
  to 2, and predicts mean \<open>-1\<close> and every standard deviation \<open>1\<close> for each of two
  records; and an event with two records whose observations are \<open>1\<close>.
\<close>

definition example_gsim :: gsim where
  "example_gsim = \<lparr>
      DEFINED_FOR_STANDARD_DEVIATION_TYPES = [''Total'', ''Inter event'', ''Intra event''],
      sa_periods = [1 / 10, 2],
      get_mean_and_stddevs = (\<lambda>c i ts. ([- 1, - 1], map (\<lambda>t. [1, 1]) ts)) \<rparr>"

definition example_context :: event_context where
  "example_context = \<lparr>
      Ctx = \<lparr> rake = None, attributes = [] \<rparr>, Num_Sites = 2,
      Observations = [Scalar ''PGV'' \<mapsto> [1, 1], SA 5 \<mapsto> [1, 1]],
      Expected = Map.empty, Residual = Map.empty \<rparr>"

section \<open>Distinctiveness of the bootstrapped multivariate log-likelihood\<close>

text \<open>
  \<^verbatim>\<open>get_distinctiveness(outputs, number_bootstraps, sum_imts)\<close>. \<^verbatim>\<open>outputs\<close> is the cube
  (models \<open>\<times>\<close> IMTs \<open>\<times>\<close> bootstrap draws) of log-likelihood values, a list of matrices.
  \<^verbatim>\<open>
    nbs = float(number_bootstraps)
    nimts = float(len(self.imts))
    if sum_imts:
        for i, gmpe in enumerate(self.gmpe_list):
            for j, gmpe in enumerate(self.gmpe_list):
                if i == j:
                    continue
                data_i = outputs[i, :, :]
                data_j = outputs[j, :, :]
                distinctiveness[i, j] = float(np.sum(data_i < data_j) -
                    np.sum(data_j < data_i)) / (nbs * nimts)
    else:
        ...
                for k in range(len(self.imts)):
                    data_i = outputs[i, k, :]
                    data_j = outputs[j, k, :]
                    distinctiveness[i, j, k] = float(np.sum(data_i < data_j) -
                        np.sum(data_j < data_i)) / nbs
  \<close>
  An index beyond the cube raises \<open>IndexError\<close>; the division is Python's float
  division, which raises \<open>ZeroDivisionError\<close>.
\<close>

definition getrow :: "'a list \<Rightarrow> nat \<Rightarrow> py_error + 'a" where
  "getrow xs i = (if i < length xs then Inr (xs ! i) else Inl IndexError)"

definition py_div :: "real \<Rightarrow> real \<Rightarrow> py_error + real" where
  "py_div x y = (if y = 0 then Inl ZeroDivisionError else Inr (x / y))"

definition count_less_row :: "ndarray \<Rightarrow> ndarray \<Rightarrow> int" where
  "count_less_row r s = int (length (filter (\<lambda>(x, y). x < y) (zip r s)))"

definition count_less :: "ndarray list \<Rightarrow> ndarray list \<Rightarrow> int" where
  "count_less a b = sum_list (map (\<lambda>(r, s). count_less_row r s) (zip a b))"

datatype distinctiveness = Summed "real list list" | Per_IMT "real list list list"

definition distinctiveness_summed ::
  "ndarray list list \<Rightarrow> real \<Rightarrow> real \<Rightarrow> nat \<Rightarrow> nat \<Rightarrow> py_error + real" where
  "distinctiveness_summed outputs nbs nimts i j =
     (if i = j then Inr 0
      else ebind (getrow outputs i) (\<lambda>data_i.
           ebind (getrow outputs j) (\<lambda>data_j.
           py_div (real_of_int (count_less data_i data_j - count_less data_j data_i))
             (nbs * nimts))))"

definition distinctiveness_per_imt ::
  "ndarray list list \<Rightarrow> real \<Rightarrow> nat \<Rightarrow> nat \<Rightarrow> nat \<Rightarrow> py_error + real" where
  "distinctiveness_per_imt outputs nbs i j k =
     ebind (ebind (getrow outputs i) (\<lambda>m. getrow m k)) (\<lambda>data_i.
     ebind (ebind (getrow outputs j) (\<lambda>m. getrow m k)) (\<lambda>data_j.
     py_div (real_of_int (count_less_row data_i data_j - count_less_row data_j data_i)) nbs))"

definition get_distinctiveness ::
  "residuals_obj \<Rightarrow> ndarray list list \<Rightarrow> nat \<Rightarrow> bool \<Rightarrow> py_error + distinctiveness" where
  "get_distinctiveness self outputs number_bootstraps sum_imts =
     (let ngmpes = length (gmpe_list self);
          nbs = real number_bootstraps;
          nimts = real (length (imts self))
      in if sum_imts
         then ebind (traverse (\<lambda>i. traverse (distinctiveness_summed outputs nbs nimts i)
                                   [0..<ngmpes]) [0..<ngmpes])
                (\<lambda>d. Inr (Summed d))
         else ebind (traverse (\<lambda>i. traverse (\<lambda>j.
                        if i = j then Inr (replicate (length (imts self)) 0)
                        else traverse (distinctiveness_per_imt outputs nbs i j)
                               [0..<length (imts self)])
                      [0..<ngmpes]) [0..<ngmpes])
                (\<lambda>d. Inr (Per_IMT d)))"

section \<open>Average sample log-likelihood and model weights\<close>

text \<open>
  \<^verbatim>\<open>get_loglikelihood_values(imts)\<close>:
  \<^verbatim>\<open>
    log_residuals = OrderedDict([(gmpe, np.array([])) for gmpe in self.gmpe_list])
    imt_list = [(imtx, None) for imtx in imts]
    imt_list.append(("All", None))
    llh = OrderedDict([(gmpe, OrderedDict(imt_list)) for gmpe in self.gmpe_list])
    for gmpe in self.gmpe_list:
        for imtx in imts:
            if not (imtx in self.imts) or not self.residuals[gmpe][imtx]:
                continue
            asll = np.log2(norm.pdf(self.residuals[gmpe][imtx]["Total"], 0., 1.0))
            log_residuals[gmpe] = np.hstack([log_residuals[gmpe], asll])
            llh[gmpe][imtx] = -(1.0 / float(len(asll))) * np.sum(asll)
        llh[gmpe]["All"] = -(1. / float(len(log_residuals[gmpe]))) * np.sum(log_residuals[gmpe])
    weights = np.array([2.0 ** -llh[gmpe]["All"] for gmpe in self.gmpe_list])
    weights = weights / np.sum(weights)
    model_weights = OrderedDict([(gmpe, weights[iloc])
                                 for iloc, gmpe in enumerate(self.gmpe_list)])
    return llh, model_weights
  \<close>
  \<^verbatim>\<open>norm.pdf(x, 0., 1.0)\<close> of scipy is the density of the standard normal distribution.
  Both quotients \<^verbatim>\<open>1.0 / float(len(...))\<close> are Python float divisions.
\<close>

definition norm_pdf :: "real \<Rightarrow> real" where
  "norm_pdf x = exp (- x\<^sup>2 / 2) / sqrt (2 * pi)"

definition llh_imt ::
  "residuals_obj \<Rightarrow> gmpe \<Rightarrow> imt \<Rightarrow> ndarray \<times> (imt \<rightharpoonup> real option)
     \<Rightarrow> py_error + ndarray \<times> (imt \<rightharpoonup> real option)" where
  "llh_imt self g imtx st =
     (case st of (log_residuals, llh) \<Rightarrow>
        if imtx \<notin> set (imts self) then Inr st
        else ebind (lookup (residuals self) (g, imtx)) (\<lambda>d.
             if falsy d then Inr st
             else ebind (subscript d ''Total'') (\<lambda>tot.
                  let asll = map (\<lambda>x. log 2 (norm_pdf x)) tot in
                  ebind (py_div 1 (real (length asll))) (\<lambda>w.
                  Inr (log_residuals @ asll, llh(imtx \<mapsto> Some (- w * sum_list asll)))))))"

definition llh_gmpe :: "residuals_obj \<Rightarrow> imt list \<Rightarrow> gmpe \<Rightarrow> py_error + (imt \<rightharpoonup> real option)" where
  "llh_gmpe self ims g =
     ebind (efold (llh_imt self g) ims
              ([], map_of (map (\<lambda>i. (i, None)) (ims @ [Scalar ''All''])))) (\<lambda>(log_residuals, llh).
     ebind (py_div 1 (real (length log_residuals))) (\<lambda>w.
     Inr (llh(Scalar ''All'' \<mapsto> Some (- w * sum_list log_residuals)))))"

definition llh_weight :: "(gmpe \<times> (imt \<rightharpoonup> real option)) list \<Rightarrow> gmpe \<Rightarrow> py_error + real" where
  "llh_weight llh g =
     ebind (getitem llh g) (\<lambda>l.
     ebind (lookup l (Scalar ''All'')) (\<lambda>a.
     case a of None \<Rightarrow> Inl TypeError | Some v \<Rightarrow> Inr (2 powr (- v))))"

definition get_loglikelihood_values ::
  "residuals_obj \<Rightarrow> imt list
     \<Rightarrow> py_error + (gmpe \<times> (imt \<rightharpoonup> real option)) list \<times> (gmpe \<times> real) list" where
  "get_loglikelihood_values self ims =
     ebind (traverse (\<lambda>g. ebind (llh_gmpe self ims g) (\<lambda>l. Inr (g, l)))
              (map fst (gmpe_list self))) (\<lambda>llh.
     ebind (traverse (llh_weight llh) (map fst (gmpe_list self))) (\<lambda>weights.
     Inr (llh, zip (map fst (gmpe_list self)) (map (\<lambda>w. w / sum_list weights) weights))))"

section \<open>Multivariate log-likelihood\<close>

text \<open>
  \<^verbatim>\<open>a[i:(i + n)] = v\<close> on a one-dimensional array: the slice is clipped to the array,
  and \<open>v\<close> must have the length of the slice or length one, else numpy raises
  \<open>ValueError\<close>. \<^verbatim>\<open>z[i:(i + n), j] = v\<close> does the same in column \<open>j\<close> of a matrix, held
  as the list of its rows.
\<close>

definition slice_assign :: "ndarray \<Rightarrow> nat \<Rightarrow> nat \<Rightarrow> ndarray \<Rightarrow> py_error + ndarray" where
  "slice_assign a i n v =
     (let lo = min i (length a); hi = min (i + n) (length a) in
      if length v = hi - lo then Inr (take lo a @ v @ drop hi a)
      else if length v = 1 then Inr (take lo a @ replicate (hi - lo) (v ! 0) @ drop hi a)
      else Inl ValueError)"

definition col_slice_assign ::
  "ndarray list \<Rightarrow> nat \<Rightarrow> nat \<Rightarrow> nat \<Rightarrow> ndarray \<Rightarrow> py_error + ndarray list" where
  "col_slice_assign z i n j v =
     (let lo = min i (length z); hi = min (i + n) (length z) in
      if length v = hi - lo \<or> length v = 1
      then Inr (map (\<lambda>a. if lo \<le> a \<and> a < hi
                           then (z ! a)[j := (if length v = hi - lo then v ! (a - lo) else v ! 0)]
                           else z ! a) [0..<length z])
      else Inl ValueError)"

text \<open>
  \<^verbatim>\<open>_build_matrices(contexts, gmpe, imtx)\<close>. The first loop writes the log-observations:
  \<^verbatim>\<open>
    i = 0
    for ctxt in contexts:
        n_s = ctxt["Num. Sites"]
        observations[i:(i + n_s)] = np.log(ctxt["Observations"][imtx])
        i += n_s
  \<close>
\<close>

definition observations_step ::
  "imt \<Rightarrow> event_context \<Rightarrow> nat \<times> ndarray \<Rightarrow> py_error + nat \<times> ndarray" where
  "observations_step imtx ctxt st =
     (case st of (i, observations) \<Rightarrow>
        let n_s = Num_Sites ctxt in
        ebind (lookup (Observations ctxt) imtx) (\<lambda>ob.
        ebind (slice_assign observations i n_s (map ln ob)) (\<lambda>observations'.
        Inr (i + n_s, observations'))))"

text \<open>
  The second loop, over \<^verbatim>\<open>enumerate(contexts)\<close>:
  \<^verbatim>\<open>
    if not("Intra event" in ctxt["Expected"][gmpe][imtx]) and\
            not("Inter event" in ctxt["Expected"][gmpe][imtx]):
        n_r = len(ctxt["Expected"][gmpe][imtx]["Total"])
        r_mat[i:(i + n_r)] = ctxt["Expected"][gmpe][imtx]["Total"]
        expected_mat[i:(i + n_r)] = ctxt["Expected"][gmpe][imtx]["Mean"]
        i += n_r
        continue
    n_r = len(ctxt["Expected"][gmpe][imtx]["Intra event"])
    r_mat[i:(i + n_r)] = ctxt["Expected"][gmpe][imtx]["Intra event"]
    expected_mat[i:(i + n_r)] = ctxt["Expected"][gmpe][imtx]["Mean"]
    if len(ctxt["Expected"][gmpe][imtx]["Inter event"]) == 1:
        z_g_mat[i:(i + n_r), j] = ctxt["Expected"][gmpe][imtx]["Inter event"][0]
    else:
        z_g_mat[i:(i + n_r), j] = ctxt["Expected"][gmpe][imtx]["Inter event"]
    i += n_r
  \<close>
  The test \<^verbatim>\<open>"Intra event" in None\<close> raises \<open>TypeError\<close>.
\<close>

definition matrices_step ::
  "gmpe \<Rightarrow> imt \<Rightarrow> nat \<times> event_context \<Rightarrow> nat \<times> ndarray \<times> ndarray \<times> ndarray list
     \<Rightarrow> py_error + nat \<times> ndarray \<times> ndarray \<times> ndarray list" where
  "matrices_step g imtx jc st =
     (case jc of (j, ctxt) \<Rightarrow> case st of (i, r_mat, expected_mat, z_g_mat) \<Rightarrow>
        ebind (lookup (Expected ctxt) (g, imtx)) (\<lambda>e.
        case e of
          None \<Rightarrow> Inl TypeError
        | Some kvs \<Rightarrow>
            if map_of kvs ''Intra event'' = None \<and> map_of kvs ''Inter event'' = None
            then ebind (getitem kvs ''Total'') (\<lambda>tot.
                 let n_r = length tot in
                 ebind (slice_assign r_mat i n_r tot) (\<lambda>r_mat'.
                 ebind (getitem kvs ''Mean'') (\<lambda>mean.
                 ebind (slice_assign expected_mat i n_r mean) (\<lambda>expected_mat'.
                 Inr (i + n_r, r_mat', expected_mat', z_g_mat)))))
            else ebind (getitem kvs ''Intra event'') (\<lambda>intra_std.
                 let n_r = length intra_std in
                 ebind (slice_assign r_mat i n_r intra_std) (\<lambda>r_mat'.
                 ebind (getitem kvs ''Mean'') (\<lambda>mean.
                 ebind (slice_assign expected_mat i n_r mean) (\<lambda>expected_mat'.
                 ebind (getitem kvs ''Inter event'') (\<lambda>inter_std.
                 ebind (if length inter_std = 1
                        then col_slice_assign z_g_mat i n_r j [inter_std ! 0]
                        else col_slice_assign z_g_mat i n_r j inter_std) (\<lambda>z_g_mat'.
                 Inr (i + n_r, r_mat', expected_mat', z_g_mat')))))))))"

text \<open>
  \<^verbatim>\<open>v_mat = np.diag(r_mat ** 2.) + z_g_mat.dot(z_g_mat.T)\<close>, for \<open>r_mat\<close> of length \<open>n\<close>
  and \<open>z_g_mat\<close> of \<open>n\<close> rows.
\<close>

definition dot :: "ndarray \<Rightarrow> ndarray \<Rightarrow> real" where
  "dot x y = sum_list (map2 (*) x y)"

definition covariance :: "ndarray \<Rightarrow> ndarray list \<Rightarrow> ndarray list" where
  "covariance r_mat z_g_mat =
     map (\<lambda>a. map (\<lambda>b. (if a = b then (r_mat ! a)\<^sup>2 else 0) + dot (z_g_mat ! a) (z_g_mat ! b))
                  [0..<length r_mat]) [0..<length r_mat]"

definition build_matrices ::
  "event_context list \<Rightarrow> gmpe \<Rightarrow> imt
     \<Rightarrow> py_error + ndarray \<times> ndarray list \<times> ndarray \<times> nat \<times> nat" where
  "build_matrices cs g imtx =
     (let neqs = length cs;
          nrecs = sum_list (map Num_Sites cs)
      in ebind (efold (observations_step imtx) cs (0, replicate nrecs 0)) (\<lambda>(i1, observations).
         ebind (efold (matrices_step g imtx) (List.enumerate 0 cs)
                  (0, replicate nrecs 0, replicate nrecs 0, replicate nrecs (replicate neqs 0)))
           (\<lambda>(i2, r_mat, expected_mat, z_g_mat).
         Inr (observations, covariance r_mat z_g_mat, expected_mat, neqs, nrecs))))"

text \<open>
  \<^verbatim>\<open>get_multivariate_ll(contexts, gmpe, imt)\<close>:
  \<^verbatim>\<open>
    observations, v_mat, expected_mat, neqs, nrecs = _build_matrices(contexts, gmpe, imt)
    sign, logdetv = np.linalg.slogdet(v_mat)
    b_mat = observations - expected_mat
    return (float(nrecs) * np.log(2.0 * np.pi) + logdetv +
            (b_mat.T.dot(solve(v_mat, b_mat)))) / 2.
  \<close>
  \<^verbatim>\<open>np.linalg.slogdet\<close> and \<^verbatim>\<open>scipy.linalg.solve\<close> are library functions and are
  parameters of the model; \<^verbatim>\<open>solve\<close> raises \<open>LinAlgError\<close> at a singular matrix.
\<close>

definition get_multivariate_ll ::
  "(ndarray list \<Rightarrow> real \<times> real) \<Rightarrow> (ndarray list \<Rightarrow> ndarray \<Rightarrow> py_error + ndarray)
     \<Rightarrow> event_context list \<Rightarrow> gmpe \<Rightarrow> imt \<Rightarrow> py_error + real" where
  "get_multivariate_ll slogdet solve cs g imtx =
     ebind (build_matrices cs g imtx) (\<lambda>(observations, v_mat, expected_mat, neqs, nrecs).
     case slogdet v_mat of (sign, logdetv) \<Rightarrow>
       ebind (np_sub observations expected_mat) (\<lambda>b_mat.
       ebind (solve v_mat b_mat) (\<lambda>x.
       Inr ((real nrecs * ln (2 * pi) + logdetv + dot b_mat x) / 2))))"

text \<open>
  \<^verbatim>\<open>get_multivariate_loglikelihood_values(sum_imts)\<close>:
  \<^verbatim>\<open>
    for gmpe in self.gmpe_list:
        for j, imtx in enumerate(self.imts):
            if self.residuals[gmpe][imtx] is None:
                multi_llh_values[gmpe][imtx] = 0.0
            else:
                multi_llh_values[gmpe][imtx] = get_multivariate_ll(self.contexts, gmpe, imtx)
        if sum_imts:
            total_llh = 0.0
            for imtx in self.imts:
                if np.isnan(multi_llh_values[gmpe][imtx]):
                    continue
                total_llh += multi_llh_values[gmpe][imtx]
            multi_llh_values[gmpe] = total_llh
  \<close>
  A real number is never \<open>nan\<close>, so the test \<^verbatim>\<open>np.isnan\<close> is false of every value of
  the model. An entry of the result is a dictionary of values per IMT or the sum.
\<close>

definition np_isnan :: "real \<Rightarrow> bool" where
  "np_isnan x = False"

datatype multi_llh = LLH_by_imt "(imt \<times> real) list" | LLH_total real

definition multivariate_imt ::
  "(ndarray list \<Rightarrow> real \<times> real) \<Rightarrow> (ndarray list \<Rightarrow> ndarray \<Rightarrow> py_error + ndarray)
     \<Rightarrow> residuals_obj \<Rightarrow> gmpe \<Rightarrow> imt \<Rightarrow> (imt \<times> real) list \<Rightarrow> py_error + (imt \<times> real) list" where
  "multivariate_imt slogdet solve self g imtx d =
     ebind (lookup (residuals self) (g, imtx)) (\<lambda>r.
     if r = None then Inr (AList.update imtx 0 d)
     else ebind (case contexts self of
                   None \<Rightarrow> Inl TypeError
                 | Some cs \<Rightarrow> get_multivariate_ll slogdet solve cs g imtx)
            (\<lambda>v. Inr (AList.update imtx v d)))"

definition sum_llh :: "(imt \<times> real) list \<Rightarrow> imt \<Rightarrow> real \<Rightarrow> py_error + real" where
  "sum_llh d imtx total_llh =
     ebind (getitem d imtx) (\<lambda>v. if np_isnan v then Inr total_llh else Inr (total_llh + v))"

definition multivariate_gmpe ::
  "(ndarray list \<Rightarrow> real \<times> real) \<Rightarrow> (ndarray list \<Rightarrow> ndarray \<Rightarrow> py_error + ndarray)
     \<Rightarrow> residuals_obj \<Rightarrow> bool \<Rightarrow> gmpe \<Rightarrow> py_error + multi_llh" where
  "multivariate_gmpe slogdet solve self sum_imts g =
     ebind (efold (multivariate_imt slogdet solve self g) (imts self) []) (\<lambda>d.
     if sum_imts
     then ebind (efold (sum_llh d) (imts self) 0) (\<lambda>total_llh. Inr (LLH_total total_llh))
     else Inr (LLH_by_imt d))"

definition get_multivariate_loglikelihood_values ::
  "(ndarray list \<Rightarrow> real \<times> real) \<Rightarrow> (ndarray list \<Rightarrow> ndarray \<Rightarrow> py_error + ndarray)
     \<Rightarrow> residuals_obj \<Rightarrow> bool \<Rightarrow> py_error + (gmpe \<times> multi_llh) list" where
  "get_multivariate_loglikelihood_values slogdet solve self sum_imts =
     traverse (\<lambda>g. ebind (multivariate_gmpe slogdet solve self sum_imts g) (\<lambda>v. Inr (g, v)))
       (map fst (gmpe_list self))"

section \<open>Euclidean distance-based ranking: the pooled data\<close>

text \<open>
  \<^verbatim>\<open>_get_edr_gmpe_information(gmpe)\<close>, which \<^verbatim>\<open>get_edr_values\<close> calls first for every
  model of the list:
  \<^verbatim>\<open>
    for imtx in self.imts:
        for context in self.contexts:
            obs = np.hstack([obs, np.log(context["Observations"][imtx])])
            expected = np.hstack([expected, context["Expected"][gmpe][imtx]["Mean"]])
            stddev = np.hstack([stddev, context["Expected"][gmpe][imtx]["Total"]])
    return obs, expected, stddev
  \<close>
\<close>

definition edr_step ::
  "gmpe \<Rightarrow> imt \<Rightarrow> event_context \<Rightarrow> ndarray \<times> ndarray \<times> ndarray
     \<Rightarrow> py_error + ndarray \<times> ndarray \<times> ndarray" where
  "edr_step g imtx cx st =
     (case st of (obs, expected, stddev) \<Rightarrow>
        ebind (lookup (Observations cx) imtx) (\<lambda>ob.
        ebind (lookup (Expected cx) (g, imtx)) (\<lambda>e.
        ebind (subscript e ''Mean'') (\<lambda>mean.
        ebind (subscript e ''Total'') (\<lambda>tot.
        Inr (obs @ map ln ob, expected @ mean, stddev @ tot))))))"

definition get_edr_gmpe_information ::
  "residuals_obj \<Rightarrow> gmpe \<Rightarrow> py_error + ndarray \<times> ndarray \<times> ndarray" where
  "get_edr_gmpe_information self g =
     efold (\<lambda>imtx st. case contexts self of
                         None \<Rightarrow> Inl TypeError
                       | Some cs \<Rightarrow> efold (edr_step g imtx) cs st)
       (imts self) ([], [], [])"

text \<open>
  \<^verbatim>\<open>get_edr_values(bandwidth, multiplier)\<close>:
  \<^verbatim>\<open>
    for gmpe in self.gmpe_list:
        obs, expected, stddev = self._get_edr_gmpe_information(gmpe)
        results = self._get_edr(obs, expected, stddev, bandwidth, multiplier)
        edr_values[gmpe]["MDE Norm"] = results[0]
        edr_values[gmpe]["sqrt Kappa"] = results[1]
        edr_values[gmpe]["EDR"] = results[2]
  \<close>
  \<^verbatim>\<open>_get_edr\<close> integrates numerically with scipy's normal distribution function; it is
  a parameter \<open>get_edr\<close> here, since nothing below depends on what it computes.
\<close>

definition get_edr_values ::
  "(ndarray \<Rightarrow> ndarray \<Rightarrow> ndarray \<Rightarrow> real \<Rightarrow> real \<Rightarrow> py_error + real \<times> real \<times> real)
     \<Rightarrow> residuals_obj \<Rightarrow> real \<Rightarrow> real \<Rightarrow> py_error + (gmpe \<times> real \<times> real \<times> real) list" where
  "get_edr_values get_edr self bandwidth multiplier =
     traverse (\<lambda>g. ebind (get_edr_gmpe_information self g) (\<lambda>(obs, expected, stddev).
                    ebind (get_edr obs expected stddev bandwidth multiplier) (\<lambda>results.
                    Inr (g, results))))
       (map fst (gmpe_list self))"

section \<open>Single-station analysis\<close>

text \<open>
  \<^verbatim>\<open>get_site_residuals\<close> stores, for each site, a \<^verbatim>\<open>Residuals\<close> object to which it
  attaches the dictionaries \<^verbatim>\<open>site_analysis\<close> and \<^verbatim>\<open>site_expected\<close> (one empty dictionary
  per model and IMT). The values that \<^verbatim>\<open>residual_statistics\<close> stores in
  \<^verbatim>\<open>site_analysis[gmpe][imtx]\<close> are a record count, arrays and numbers.
\<close>

datatype analysis_value = Count nat | Arr ndarray | Num real

record site_residuals_obj = residuals_obj +
  site_analysis :: "(gmpe \<times> imt) \<rightharpoonup> (string \<times> analysis_value) list"
  site_expected :: "(gmpe \<times> imt) \<rightharpoonup> (string \<times> analysis_value) list"

record single_station_analysis =
  site_ids :: "string list"
  ssa_gmpe_list :: "(gmpe \<times> gsim) list"
  ssa_imts :: "imt list"
  site_residuals :: "site_residuals_obj list"

text \<open>
  \<^verbatim>\<open>
    def _get_delta_s2ss(self, intra_event, n_events):
        return (1. / float(n_events)) * np.sum(intra_event)

    def _get_single_station_phi(self, intra_event, delta_s2ss, n_events):
        phiss = np.sum((intra_event - delta_s2ss) ** 2.) / float(n_events - 1)
        return np.sqrt(phiss)
  \<close>
  The first division is Python's (it raises at zero), the second is numpy's.
\<close>

definition get_delta_s2ss :: "ndarray \<Rightarrow> nat \<Rightarrow> py_error + real" where
  "get_delta_s2ss intra_event n_events =
     ebind (py_div 1 (real n_events)) (\<lambda>w. Inr (w * sum_list intra_event))"

definition get_single_station_phi :: "ndarray \<Rightarrow> real \<Rightarrow> nat \<Rightarrow> real" where
  "get_single_station_phi intra_event delta_s2ss n_events =
     sqrt (sum_list (map (\<lambda>x. (x - delta_s2ss)\<^sup>2) intra_event)
           / real_of_int (int n_events - 1))"

text \<open>\<^verbatim>\<open>resid.site_analysis[gmpe][imtx][name] = v\<close>.\<close>

definition set_analysis ::
  "gmpe \<times> imt \<Rightarrow> string \<Rightarrow> analysis_value \<Rightarrow> site_residuals_obj \<Rightarrow> py_error + site_residuals_obj" where
  "set_analysis k name v resid =
     ebind (lookup (site_analysis resid) k) (\<lambda>a.
     Inr (resid\<lparr>site_analysis := (site_analysis resid)(k \<mapsto> AList.update name v a)\<rparr>))"

text \<open>
  The body of the loops of \<^verbatim>\<open>residual_statistics\<close> for one site and one pair:
  \<^verbatim>\<open>
    if not resid.residuals[gmpe][imtx]:
        continue
    n_events = len(resid.residuals[gmpe][imtx]["Total"])
    resid.site_analysis[gmpe][imtx]["events"] = n_events
    resid.site_analysis[gmpe][imtx]["Total"] = np.copy(t_resid.residuals[gmpe][imtx]["Total"])
    resid.site_analysis[gmpe][imtx]["Expected Total"] = np.copy(t_resid.modelled[gmpe][imtx]["Total"])
    if not ("Intra event" in t_resid.residuals[gmpe][imtx]):
        continue
    resid.site_analysis[gmpe][imtx]["Intra event"] = np.copy(t_resid.residuals[gmpe][imtx]["Intra event"])
    resid.site_analysis[gmpe][imtx]["Inter event"] = np.copy(t_resid.residuals[gmpe][imtx]["Inter event"])
    delta_s2ss = self._get_delta_s2ss(resid.residuals[gmpe][imtx]["Intra event"], n_events)
    delta_woes = resid.site_analysis[gmpe][imtx]["Intra event"] - delta_s2ss
    resid.site_analysis[gmpe][imtx]["dS2ss"] = delta_s2ss
    resid.site_analysis[gmpe][imtx]["dWo,es"] = delta_woes
    resid.site_analysis[gmpe][imtx]["phi_ss,s"] = self._get_single_station_phi(
        resid.residuals[gmpe][imtx]["Intra event"], delta_s2ss, n_events)
    resid.site_analysis[gmpe][imtx]["Expected Inter"] = np.copy(t_resid.modelled[gmpe][imtx]["Inter event"])
    resid.site_analysis[gmpe][imtx]["Expected Intra"] = np.copy(t_resid.modelled[gmpe][imtx]["Intra event"])
  \<close>
\<close>

definition store_item ::
  "((gmpe \<times> imt) \<rightharpoonup> arrays option) \<Rightarrow> gmpe \<times> imt \<Rightarrow> string \<Rightarrow> py_error + ndarray" where
  "store_item store k name = ebind (lookup store k) (\<lambda>d. subscript d name)"

definition site_statistics_pair ::
  "site_residuals_obj \<Rightarrow> gmpe \<times> imt \<Rightarrow> site_residuals_obj \<Rightarrow> py_error + site_residuals_obj" where
  "site_statistics_pair t_resid k resid =
     ebind (lookup (residuals resid) k) (\<lambda>d.
     if falsy d then Inr resid
     else ebind (subscript d ''Total'') (\<lambda>total.
          let n_events = length total in
          ebind (set_analysis k ''events'' (Count n_events) resid) (\<lambda>r1.
          ebind (store_item (residuals t_resid) k ''Total'') (\<lambda>t_total.
          ebind (set_analysis k ''Total'' (Arr t_total) r1) (\<lambda>r2.
          ebind (store_item (modelled t_resid) k ''Total'') (\<lambda>e_total.
          ebind (set_analysis k ''Expected Total'' (Arr e_total) r2) (\<lambda>r3.
          ebind (lookup (residuals t_resid) k) (\<lambda>td.
          case td of
            None \<Rightarrow> Inl TypeError
          | Some kvs \<Rightarrow>
              if map_of kvs ''Intra event'' = None then Inr r3
              else ebind (store_item (residuals t_resid) k ''Intra event'') (\<lambda>t_intra.
                   ebind (set_analysis k ''Intra event'' (Arr t_intra) r3) (\<lambda>r4.
                   ebind (store_item (residuals t_resid) k ''Inter event'') (\<lambda>t_inter.
                   ebind (set_analysis k ''Inter event'' (Arr t_inter) r4) (\<lambda>r5.
                   ebind (store_item (residuals r5) k ''Intra event'') (\<lambda>intra_event.
                   ebind (get_delta_s2ss intra_event n_events) (\<lambda>delta_s2ss.
                   ebind (ebind (lookup (site_analysis r5) k) (\<lambda>a. getitem a ''Intra event''))
                     (\<lambda>a_intra.
                   ebind (case a_intra of
                            Arr xs \<Rightarrow> Inr (map (\<lambda>x. x - delta_s2ss) xs)
                          | Count n \<Rightarrow> Inl TypeError
                          | Num x \<Rightarrow> Inl TypeError) (\<lambda>delta_woes.
                   ebind (set_analysis k ''dS2ss'' (Num delta_s2ss) r5) (\<lambda>r6.
                   ebind (set_analysis k ''dWo,es'' (Arr delta_woes) r6) (\<lambda>r7.
                   ebind (store_item (residuals r7) k ''Intra event'') (\<lambda>intra_event2.
                   ebind (set_analysis k ''phi_ss,s''
                            (Num (get_single_station_phi intra_event2 delta_s2ss n_events)) r7)
                     (\<lambda>r8.
                   ebind (store_item (modelled t_resid) k ''Inter event'') (\<lambda>e_inter.
                   ebind (set_analysis k ''Expected Inter'' (Arr e_inter) r8) (\<lambda>r9.
                   ebind (store_item (modelled t_resid) k ''Intra event'') (\<lambda>e_intra.
                   set_analysis k ''Expected Intra'' (Arr e_intra) r9
                   )))))))))))))))))))))))"

text \<open>
  \<^verbatim>\<open>residual_statistics\<close>: each stored site object is copied (\<^verbatim>\<open>deepcopy\<close>) and the copy
  is filled for every model and IMT; the copies replace \<^verbatim>\<open>self.site_residuals\<close>. The
  method then returns the station-averaged values of \<^verbatim>\<open>get_total_phi_ss\<close>, which read
  the filled objects and change nothing; the model returns the updated object.
\<close>

definition site_statistics ::
  "single_station_analysis \<Rightarrow> site_residuals_obj \<Rightarrow> py_error + site_residuals_obj" where
  "site_statistics self t_resid =
     efold (site_statistics_pair t_resid)
       (List.product (map fst (ssa_gmpe_list self)) (ssa_imts self)) t_resid"

definition residual_statistics :: "single_station_analysis \<Rightarrow> py_error + single_station_analysis" where
  "residual_statistics self =
     ebind (traverse (site_statistics self) (site_residuals self))
       (\<lambda>output_resid. Inr (self\<lparr>site_residuals := output_resid\<rparr>))"

text \<open>
  The values that claim C9 names, for a site with intra-event residuals \<open>intra\<close> and
  \<open>n\<close> records, as the entries of \<^verbatim>\<open>site_analysis[gmpe][imtx]\<close> hold them.
\<close>

definition site_formulas :: "ndarray \<Rightarrow> nat \<Rightarrow> site_residuals_obj \<Rightarrow> gmpe \<times> imt \<Rightarrow> bool" where
  "site_formulas intra n r k \<longleftrightarrow>
     (\<exists>a. site_analysis r k = Some a
     \<and> map_of a ''dS2ss'' = Some (Num (1 / real n * sum_list intra))
     \<and> map_of a ''dWo,es'' = Some (Arr (map (\<lambda>x. x - 1 / real n * sum_list intra) intra))
     \<and> map_of a ''phi_ss,s'' =
         Some (Num (get_single_station_phi intra (1 / real n * sum_list intra) n)))"

text \<open>An analysis of one site with two records, of intra-event residuals 1 and 3.\<close>

definition example_site :: site_residuals_obj where
  "example_site = \<lparr>
      gmpe_list = [(''G'', example_gsim)], imts = [Scalar ''PGV''],
      types = [(''G'', Scalar ''PGV'') \<mapsto> [''Total'', ''Inter event'', ''Intra event'']],
      residuals = [(''G'', Scalar ''PGV'') \<mapsto>
         Some [(''Total'', [2, 4]), (''Inter event'', [1]), (''Intra event'', [1, 3])]],
      modelled = [(''G'', Scalar ''PGV'') \<mapsto>
         Some [(''Total'', [1, 1]), (''Inter event'', [1, 1]), (''Intra event'', [1, 1]),
               (''Mean'', [- 1, - 1])]],
      unique_indices = [(''G'', Scalar ''PGV'') \<mapsto> [[0]]],
      gmpe_sa_limits = [''G'' \<mapsto> (1 / 10, 2)],
      contexts = Some [],
      site_analysis = [(''G'', Scalar ''PGV'') \<mapsto> []],
      site_expected = [(''G'', Scalar ''PGV'') \<mapsto> []] \<rparr>"

definition example_station :: single_station_analysis where
  "example_station = \<lparr>
      site_ids = [''S1''], ssa_gmpe_list = [(''G'', example_gsim)], ssa_imts = [Scalar ''PGV''],
      site_residuals = [example_site] \<rparr>"

text \<open>Two models with stored total residuals for one IMT.\<close>

definition example_two_models :: residuals_obj where
  "example_two_models = \<lparr>
      gmpe_list = [(''A'', example_gsim), (''B'', example_gsim)], imts = [Scalar ''PGV''],
      types = [(''A'', Scalar ''PGV'') \<mapsto> [''Total''], (''B'', Scalar ''PGV'') \<mapsto> [''Total'']],
      residuals = [(''A'', Scalar ''PGV'') \<mapsto> Some [(''Total'', [0])],
                   (''B'', Scalar ''PGV'') \<mapsto> Some [(''Total'', [1, 2])]],
      modelled = [(''A'', Scalar ''PGV'') \<mapsto> Some [(''Total'', [1]), (''Mean'', [0])],
                  (''B'', Scalar ''PGV'') \<mapsto> Some [(''Total'', [1, 1]), (''Mean'', [0, 0])]],
      unique_indices = [(''A'', Scalar ''PGV'') \<mapsto> [], (''B'', Scalar ''PGV'') \<mapsto> []],
      gmpe_sa_limits = [''A'' \<mapsto> (1 / 10, 2), ''B'' \<mapsto> (1 / 10, 2)],
      contexts = Some [] \<rparr>"

text \<open>
  What the dictionary \<^verbatim>\<open>multi_llh_values[gmpe]\<close> holds for an IMT: zero when the stored
  residuals of the pair are \<^verbatim>\<open>None\<close>, and else the value of \<^verbatim>\<open>get_multivariate_ll\<close>.
\<close>

definition llh_entry ::
  "(ndarray list \<Rightarrow> real \<times> real) \<Rightarrow> (ndarray list \<Rightarrow> ndarray \<Rightarrow> py_error + ndarray)
     \<Rightarrow> residuals_obj \<Rightarrow> gmpe \<Rightarrow> imt \<Rightarrow> (imt \<times> real) list \<Rightarrow> bool" where
  "llh_entry slogdet solve self g i d \<longleftrightarrow>
     (\<exists>v. map_of d i = Some v
        \<and> (if residuals self (g, i) = Some None then v = 0
            else \<exists>cs. contexts self = Some cs \<and> get_multivariate_ll slogdet solve cs g i = Inr v))"

text \<open>
  The analysis of the example model for the IMTs PGV and SA(5), the latter outside the
  model's period range: the state after \<^verbatim>\<open>__init__\<close>, the example event after the
  expected motions and the (normalised) residuals were computed, and the state after
  \<^verbatim>\<open>get_residuals\<close> for that one event.
\<close>

definition example_residuals :: residuals_obj where
  "example_residuals = \<lparr>
      gmpe_list = [(''G'', example_gsim)], imts = [Scalar ''PGV'', SA 5],
      types = [(''G'', Scalar ''PGV'') \<mapsto> [''Total'', ''Inter event'', ''Intra event'']],
      residuals = [(''G'', Scalar ''PGV'') \<mapsto>
                     Some [(''Total'', []), (''Inter event'', []), (''Intra event'', [])],
                   (''G'', SA 5) \<mapsto> None],
      modelled = [(''G'', Scalar ''PGV'') \<mapsto>
                     Some [(''Total'', []), (''Inter event'', []), (''Intra event'', []),
                           (''Mean'', [])],
                  (''G'', SA 5) \<mapsto> None],
      unique_indices = [(''G'', Scalar ''PGV'') \<mapsto> []],
      gmpe_sa_limits = [''G'' \<mapsto> (1 / 10, 2)],
      contexts = None \<rparr>"

definition example_processed :: event_context where
  "example_processed = \<lparr>
      Ctx = \<lparr> rake = Some 0, attributes = [] \<rparr>, Num_Sites = 2,
      Observations = [Scalar ''PGV'' \<mapsto> [1, 1], SA 5 \<mapsto> [1, 1]],
      Expected = [(''G'', Scalar ''PGV'') \<mapsto>
                    Some [(''Mean'', [- 1, - 1]), (''Total'', [1, 1]), (''Inter event'', [1, 1]),
                          (''Intra event'', [1, 1])],
                  (''G'', SA 5) \<mapsto> None],
      Residual = [(''G'', Scalar ''PGV'') \<mapsto>
                    Some [(''Total'', [1, 1]), (''Inter event'', [2 / 3, 2 / 3]),
                          (''Intra event'', [1 / 3, 1 / 3])],
                  (''G'', SA 5) \<mapsto> None] \<rparr>"

definition example_store :: residuals_obj where
  "example_store = \<lparr>
      gmpe_list = [(''G'', example_gsim)], imts = [Scalar ''PGV'', SA 5],
      types = [(''G'', Scalar ''PGV'') \<mapsto> [''Total'', ''Inter event'', ''Intra event'']],
      residuals = [(''G'', Scalar ''PGV'') \<mapsto>
                     Some [(''Total'', [1, 1]), (''Inter event'', [2 / 3]),
                           (''Intra event'', [1 / 3, 1 / 3])],
                   (''G'', SA 5) \<mapsto> None],
      modelled = [(''G'', Scalar ''PGV'') \<mapsto>
                     Some [(''Total'', [1, 1]), (''Inter event'', [1, 1]),
                           (''Intra event'', [1, 1]), (''Mean'', [- 1, - 1])],
                  (''G'', SA 5) \<mapsto> None],
      unique_indices = [(''G'', Scalar ''PGV'') \<mapsto> [[0]]],
      gmpe_sa_limits = [''G'' \<mapsto> (1 / 10, 2)],
      contexts = Some [example_processed] \<rparr>"

section \<open>What the aggregator accumulates\<close>

text \<open>
  The array that a context holds for a pair and a key (empty when there is none), what
  a context's inter-event residual vector contributes to the store and to the index
  record, and the contexts that the aggregator does not skip for a pair: those whose
  \<^verbatim>\<open>Residual\<close> entry is a non-empty dictionary.
\<close>

definition ctx_array :: "((gmpe \<times> imt) \<rightharpoonup> arrays option) \<Rightarrow> gmpe \<times> imt \<Rightarrow> string \<Rightarrow> ndarray" where
  "ctx_array d k t = (case store_item d k t of Inr v \<Rightarrow> v | Inl e \<Rightarrow> [])"

definition inter_contribution :: "ndarray \<Rightarrow> ndarray" where
  "inter_contribution v = (if is_constant v then [v ! 0] else v)"

definition inter_indices :: "ndarray \<Rightarrow> nat list" where
  "inter_indices v = (if is_constant v then [0] else [0..<length v])"

definition contribution :: "gmpe \<times> imt \<Rightarrow> string \<Rightarrow> event_context \<Rightarrow> ndarray" where
  "contribution k t c =
     (if t = ''Inter event'' then inter_contribution (ctx_array (Residual c) k t)
      else ctx_array (Residual c) k t)"

definition active :: "gmpe \<times> imt \<Rightarrow> event_context \<Rightarrow> bool" where
  "active k c = (case Residual c k of None \<Rightarrow> False | Some d \<Rightarrow> \<not> falsy d)"

text \<open>
  The state of the stores of a pair with residual types \<open>ts\<close> after the contexts \<open>cs\<close>
  were aggregated: each array is the concatenation of what the contexts contributed.
\<close>

definition aggregated ::
  "gmpe \<times> imt \<Rightarrow> string list \<Rightarrow> event_context list \<Rightarrow> residuals_obj \<Rightarrow> bool" where
  "aggregated k ts cs self \<longleftrightarrow>
     (\<exists>r m. residuals self k = Some (Some r) \<and> map fst r = ts
        \<and> modelled self k = Some (Some m) \<and> map fst m = ts @ [''Mean'']
        \<and> (\<forall>t \<in> set ts.
              map_of r t = Some (concat (map (contribution k t) (filter (active k) cs)))
            \<and> map_of m t = Some (concat (map (\<lambda>c. ctx_array (Expected c) k t) (filter (active k) cs))))
        \<and> map_of m ''Mean'' =
              Some (concat (map (\<lambda>c. ctx_array (Expected c) k ''Mean'') (filter (active k) cs)))
        \<and> unique_indices self k =
              Some (if ''Inter event'' \<in> set ts
                    then map (\<lambda>c. inter_indices (ctx_array (Residual c) k ''Inter event''))
                           (filter (active k) cs)
                    else []))"

section \<open>Properties\<close>

lemma ebind_Inr_iff: "ebind m f = Inr y \<longleftrightarrow> (\<exists>v. m = Inr v \<and> f v = Inr y)"
  by (cases m) (simp_all add: ebind_def)

lemma broadcast2_length:
  "broadcast2 f xs ys = Inr zs \<Longrightarrow>
     length zs = (if length xs = 1 then length ys else length xs)"
  by (auto simp: broadcast2_def split: if_splits)

lemma broadcast2_nth:
  "broadcast2 f xs ys = Inr zs \<Longrightarrow> i < length zs \<Longrightarrow> zs ! i = f (bidx xs i) (bidx ys i)"
  by (auto simp: broadcast2_def bidx_def split: if_splits)

subsection \<open>Loops that build dictionaries\<close>

lemma traverse_keyed:
  "traverse (\<lambda>x. ebind (h x) (\<lambda>v. Inr (x, v))) xs = Inr kvs \<Longrightarrow>
     map fst kvs = xs \<and> (\<forall>p \<in> set kvs. h (fst p) = Inr (snd p))"
proof (induction xs arbitrary: kvs)
  case Nil
  then show ?case by simp
next
  case (Cons x xs)
  from Cons.prems obtain v kvs' where v: "h x = Inr v"
    and t: "traverse (\<lambda>x. ebind (h x) (\<lambda>v. Inr (x, v))) xs = Inr kvs'"
    and kvs: "kvs = (x, v) # kvs'"
    by (auto simp: ebind_Inr_iff)
  from Cons.IH[OF t] v kvs show ?case by simp
qed

lemma tabulate2_keyed:
  assumes "tabulate2 ks js f = Inr m"
  obtains kvs where "m = map_of kvs" and "map fst kvs = List.product ks js"
    and "\<forall>p \<in> set kvs. f (fst (fst p)) (snd (fst p)) = Inr (snd p)"
proof -
  have eq: "(\<lambda>(k, j). ebind (f k j) (\<lambda>v. Inr ((k, j), v)))
     = (\<lambda>x. ebind (case x of (k, j) \<Rightarrow> f k j) (\<lambda>v. Inr (x, v)))"
    by (auto simp: fun_eq_iff)
  from assms obtain kvs where
    t: "traverse (\<lambda>x. ebind (case x of (k, j) \<Rightarrow> f k j) (\<lambda>v. Inr (x, v))) (List.product ks js) = Inr kvs"
    and m: "m = map_of kvs"
    unfolding tabulate2_def eq by (auto simp: ebind_Inr_iff)
  from traverse_keyed[OF t] m that show thesis
    by (auto simp: case_prod_beta)
qed

lemma tabulate2_Some:
  assumes "tabulate2 ks js f = Inr m" and "k \<in> set ks" and "j \<in> set js"
  shows "\<exists>v. f k j = Inr v \<and> m (k, j) = Some v"
proof -
  from assms(1) obtain kvs where m: "m = map_of kvs"
    and keys: "map fst kvs = List.product ks js"
    and vals: "\<forall>p \<in> set kvs. f (fst (fst p)) (snd (fst p)) = Inr (snd p)"
    by (rule tabulate2_keyed)
  have "(k, j) \<in> set (map fst kvs)" using assms(2,3) keys by simp
  then obtain v where v: "map_of kvs (k, j) = Some v"
    by (metis map_of_eq_None_iff not_Some_eq set_map)
  then have "((k, j), v) \<in> set kvs" by (rule map_of_SomeD)
  with vals have "f k j = Inr v" by force
  with v m show ?thesis by simp
qed

lemma tabulate2_None:
  assumes "tabulate2 ks js f = Inr m" and "k \<notin> set ks \<or> j \<notin> set js"
  shows "m (k, j) = None"
proof -
  from assms(1) obtain kvs where m: "m = map_of kvs"
    and keys: "map fst kvs = List.product ks js"
    by (rule tabulate2_keyed)
  have "(k, j) \<notin> set (map fst kvs)" using assms(2) keys by auto
  then show ?thesis by (simp add: m map_of_eq_None_iff)
qed

subsection \<open>Broadcasting\<close>

lemma broadcast2_same: "length xs = length ys \<Longrightarrow> broadcast2 f xs ys = Inr (map2 f xs ys)"
  by (simp add: broadcast2_def)

lemma broadcast2_left1:
  "length xs = 1 \<Longrightarrow> broadcast2 f xs ys = Inr (map (f (xs ! 0)) ys)"
  by (cases xs; cases ys) (auto simp: broadcast2_def)

lemma broadcast2_right1:
  "length ys = 1 \<Longrightarrow> broadcast2 f xs ys = Inr (map (\<lambda>x. f x (ys ! 0)) xs)"
  by (cases ys; cases xs) (auto simp: broadcast2_def)

lemma broadcast2_flex:
  assumes "length xs = n \<or> length xs = 1" and "length ys = n \<or> length ys = 1"
  shows "broadcast2 f xs ys =
     Inr (map (\<lambda>i. f (bidx xs i) (bidx ys i))
            [0..<(if length xs = 1 \<and> length ys = 1 then 1 else n)])"
proof (cases "length xs = length ys")
  case True
  then show ?thesis using assms
    by (auto simp: broadcast2_same bidx_def intro!: nth_equalityI)
next
  case False
  show ?thesis
  proof (cases "length xs = 1")
    case True
    with False assms have "length ys = n" "n \<noteq> 1" by auto
    with True show ?thesis
      by (auto simp: broadcast2_left1 bidx_def intro!: nth_equalityI)
  next
    case xs: False
    with False assms have "length ys = 1" "length xs = n" "n \<noteq> 1" by auto
    then show ?thesis
      by (auto simp: broadcast2_right1 bidx_def intro!: nth_equalityI)
  qed
qed

subsection \<open>The random-effects decomposition\<close>

text \<open>
  For the shapes the pipeline produces (log-observations and means of the context's
  \<open>n\<close> records, each standard deviation an array of \<open>n\<close> values or of one value) the
  function returns, and its result is known in closed form.
\<close>

lemma random_effects_closed_form:
  assumes "length obs = n" "length mean = n"
    and "length inter_std = n \<or> length inter_std = 1"
    and "length intra_std = n \<or> length intra_std = 1"
  shows "get_random_effects_residuals obs mean inter_std intra_std normalise =
     (let m = (if length inter_std = 1 \<and> length intra_std = 1 then 1 else n);
          eta = (\<lambda>i. eta_spec (bidx inter_std i) (bidx intra_std i) (real n) (\<Sum>k<n. obs ! k - mean ! k))
      in if normalise
         then Inr (map (\<lambda>i. eta i / bidx inter_std i) [0..<m],
                   map (\<lambda>i. (obs ! i - (mean ! i + eta i)) / bidx intra_std i) [0..<n])
         else Inr (map eta [0..<m], map (\<lambda>i. obs ! i - (mean ! i + eta i)) [0..<n]))"
proof -
  define S where "S = (\<Sum>k<n. obs ! k - mean ! k)"
  define m where "m = (if length inter_std = 1 \<and> length intra_std = 1 then 1 else n)"
  define eta where "eta = (\<lambda>i. eta_spec (bidx inter_std i) (bidx intra_std i) (real n) S)"
  have d: "np_sub obs mean = Inr (map2 (-) obs mean)"
    using assms by (simp add: np_sub_def broadcast2_same)
  have S: "sum_list (map2 (-) obs mean) = S"
    using assms(1,2) by (simp add: S_def sum_list_sum_nth atLeast0LessThan)
  have den: "np_add (map (\<lambda>t. real n * t\<^sup>2) inter_std) (map (\<lambda>p. p\<^sup>2) intra_std)
      = Inr (map (\<lambda>i. real n * (bidx inter_std i)\<^sup>2 + (bidx intra_std i)\<^sup>2) [0..<m])"
    unfolding np_add_def m_def
    using assms(3,4) by (subst broadcast2_flex[where n=n]) (auto simp: bidx_def)
  have ires: "np_div (map (\<lambda>t. t\<^sup>2 * S) inter_std)
       (map (\<lambda>i. real n * (bidx inter_std i)\<^sup>2 + (bidx intra_std i)\<^sup>2) [0..<m])
      = Inr (map eta [0..<m])"
    unfolding np_div_def m_def eta_def
    using assms(3,4) by (subst broadcast2_flex[where n=n]) (auto simp: bidx_def eta_spec_def)
  have m: "np_add mean (map eta [0..<m]) = Inr (map (\<lambda>i. mean ! i + eta i) [0..<n])"
    unfolding np_add_def m_def
    using assms(2) by (subst broadcast2_flex[where n=n]) (auto simp: bidx_def eta_def)
  have w: "np_sub obs (map (\<lambda>i. mean ! i + eta i) [0..<n])
      = Inr (map (\<lambda>i. obs ! i - (mean ! i + eta i)) [0..<n])"
    unfolding np_sub_def
    using assms(1) by (subst broadcast2_flex[where n=n]) (auto simp: bidx_def)
  have a: "np_div (map eta [0..<m]) inter_std = Inr (map (\<lambda>i. eta i / bidx inter_std i) [0..<m])"
    unfolding np_div_def m_def
    using assms(3) by (subst broadcast2_flex[where n=n]) (auto simp: bidx_def)
  have b: "np_div (map (\<lambda>i. obs ! i - (mean ! i + eta i)) [0..<n]) intra_std
      = Inr (map (\<lambda>i. (obs ! i - (mean ! i + eta i)) / bidx intra_std i) [0..<n])"
    unfolding np_div_def
    using assms(4) by (subst broadcast2_flex[where n=n]) (auto simp: bidx_def)
  have "get_random_effects_residuals obs mean inter_std intra_std normalise =
     (if normalise
         then Inr (map (\<lambda>i. eta i / bidx inter_std i) [0..<m],
                   map (\<lambda>i. (obs ! i - (mean ! i + eta i)) / bidx intra_std i) [0..<n])
         else Inr (map eta [0..<m], map (\<lambda>i. obs ! i - (mean ! i + eta i)) [0..<n]))"
    unfolding get_random_effects_residuals_def Let_def
    by (simp add: assms(2) d S den ires m w a b ebind_def)
  then show ?thesis
    unfolding Let_def m_def eta_def S_def .
qed

lemma random_effects_example:
  "get_random_effects_residuals [1, 1] [0, 0] [1, 1] [1, 2] False = Inr ([2 / 3, 1 / 3], [1 / 3, 2 / 3])"
  by (simp add: get_random_effects_residuals_def np_sub_def np_add_def np_div_def
      broadcast2_def ebind_def)

text \<open>
  Claim C2, as amended. For a context of \<open>n\<close> records, with normalisation disabled,
  \<^verbatim>\<open>_get_random_effects_residuals\<close> returns an inter-event array whose element \<open>i\<close> is
  \<open>\<tau>\<^sub>i\<^sup>2 \<cdot> \<Sigma>\<^sub>k (y\<^sub>k - m\<^sub>k) / (n \<cdot> \<tau>\<^sub>i\<^sup>2 + \<phi>\<^sub>i\<^sup>2)\<close>: one value per record, and a single
  value exactly when both standard deviations are given as arrays of one element.
  With normalisation enabled the returned arrays are these values divided element by
  element by \<open>\<tau>\<^sub>i\<close>, and the intra-event residuals divided by \<open>\<phi>\<^sub>i\<close>.
\<close>

theorem random_effects_inter_event_per_record:
  assumes "length obs = n" and "length mean = n"
    and "length inter_std = n \<or> length inter_std = 1"
    and "length intra_std = n \<or> length intra_std = 1"
  shows "\<exists>eta delta.
      get_random_effects_residuals obs mean inter_std intra_std False = Inr (eta, delta)
    \<and> length eta = (if length inter_std = 1 \<and> length intra_std = 1 then 1 else n)
    \<and> (\<forall>i<length eta. eta ! i =
          (bidx inter_std i)\<^sup>2 * (\<Sum>k<n. obs ! k - mean ! k) /
            (real n * (bidx inter_std i)\<^sup>2 + (bidx intra_std i)\<^sup>2))
    \<and> get_random_effects_residuals obs mean inter_std intra_std True =
        Inr (map (\<lambda>i. eta ! i / bidx inter_std i) [0..<length eta],
             map (\<lambda>i. delta ! i / bidx intra_std i) [0..<n])"
  using random_effects_closed_form[OF assms, of False]
    random_effects_closed_form[OF assms, of True]
  by (auto simp: Let_def eta_spec_def)

theorem random_effects_inter_event_per_record_witness:
  "get_random_effects_residuals [1, 1] [0, 0] [1, 1] [1, 2] True = Inr ([2 / 3, 1 / 3], [1 / 3, 1 / 3])"
  using random_effects_inter_event_per_record[of "[1, 1]" 2 "[0, 0]" "[1, 1]" "[1, 2]"]
  by (auto simp: random_effects_example bidx_def upt_conv_Cons)

text \<open>
  The claim as written fails: for one event with two records, log-observations \<open>[1, 1]\<close>,
  means \<open>[0, 0]\<close>, \<open>\<tau> = [1, 1]\<close> and \<open>\<phi> = [1, 2]\<close>, the returned inter-event residual holds
  two different values, not one scalar for the event.
\<close>

theorem random_effects_single_scalar_counterexample:
  "get_random_effects_residuals [1, 1] [0, 0] [1, 1] [1, 2] False = Inr ([2 / 3, 1 / 3], [1 / 3, 2 / 3])
   \<and> (2 / 3 :: real) \<noteq> 1 / 3"
  by (simp add: random_effects_example)



subsection \<open>Dictionary access\<close>

lemma getitem_Inr_iff: "getitem d k = Inr v \<longleftrightarrow> map_of d k = Some v"
  by (auto simp: getitem_def lookup_def split: option.splits)

lemma lookup_Inr_iff: "lookup m k = Inr v \<longleftrightarrow> m k = Some v"
  by (auto simp: lookup_def split: option.splits)

lemma subscript_Some: "subscript (Some kvs) k = Inr v \<longleftrightarrow> map_of kvs k = Some v"
  by (simp add: subscript_def getitem_Inr_iff)

lemma calculate_residuals_pair_total:
  assumes "calculate_residuals_pair self cx normalise g i = Inr v"
    and "Expected cx (g, i) = Some (Some e)" and "e \<noteq> []"
  shows "\<exists>observation mean total_stddev d r total.
      Observations cx i = Some observation
    \<and> map_of e ''Mean'' = Some mean \<and> map_of e ''Total'' = Some total_stddev
    \<and> np_sub (map ln observation) mean = Inr d \<and> np_div d total_stddev = Inr total
    \<and> v = Some r \<and> map_of r ''Total'' = Some total"
  using assms
  unfolding calculate_residuals_pair_def Let_def
  by (auto simp: ebind_Inr_iff lookup_Inr_iff subscript_Some falsy_def
      split: option.splits if_splits prod.splits)

subsection \<open>The total residual\<close>

text \<open>
  Claim C1. For every context, every model of the list and every requested IMT whose
  Expected entry is a dictionary (not \<^verbatim>\<open>None\<close>), \<^verbatim>\<open>calculate_residuals\<close> stores under
  \<^verbatim>\<open>"Total"\<close> the array whose element \<open>k\<close> is \<open>(ln obs\<^sub>k - mean\<^sub>k) / total_stddev\<^sub>k\<close>, each
  operand read by numpy's broadcasting (when the three arrays have the length of the
  mean, so has the residual). Where the observation is positive and the standard
  deviation is not zero, \<open>obs\<^sub>k = exp (mean\<^sub>k + total\<^sub>k \<cdot> total_stddev\<^sub>k)\<close>.
\<close>

theorem total_residual_formula:
  assumes "calculate_residuals self cx normalise = Inr cx'"
    and "g \<in> set (map fst (gmpe_list self))" and "i \<in> set (imts self)"
    and "Expected cx (g, i) = Some (Some e)" and "e \<noteq> []"
  shows "\<exists>observation mean total_stddev r total.
      Observations cx i = Some observation
    \<and> map_of e ''Mean'' = Some mean \<and> map_of e ''Total'' = Some total_stddev
    \<and> Residual cx' (g, i) = Some (Some r) \<and> map_of r ''Total'' = Some total
    \<and> (length observation = length mean \<and> length total_stddev = length mean
          \<longrightarrow> length total = length mean)
    \<and> (\<forall>k<length total.
          total ! k = (ln (bidx observation k) - bidx mean k) / bidx total_stddev k
        \<and> (0 < bidx observation k \<and> bidx total_stddev k \<noteq> 0 \<longrightarrow>
             bidx observation k = exp (bidx mean k + total ! k * bidx total_stddev k)))"
proof -
  from assms(1) obtain res where
    tab: "tabulate2 (map fst (gmpe_list self)) (imts self)
            (calculate_residuals_pair self cx normalise) = Inr res"
    and cx': "cx' = cx\<lparr>Residual := res\<rparr>"
    by (auto simp: calculate_residuals_def ebind_Inr_iff)
  from tabulate2_Some[OF tab assms(2,3)] obtain v where
    pair: "calculate_residuals_pair self cx normalise g i = Inr v" and res: "res (g, i) = Some v"
    by blast
  from calculate_residuals_pair_total[OF pair assms(4,5)]
  obtain observation mean total_stddev d r total where
    obs: "Observations cx i = Some observation"
    and mean: "map_of e ''Mean'' = Some mean" and sd: "map_of e ''Total'' = Some total_stddev"
    and d: "np_sub (map ln observation) mean = Inr d" and total: "np_div d total_stddev = Inr total"
    and v: "v = Some r" and r: "map_of r ''Total'' = Some total"
    by blast
  have len_d: "length d = (if length observation = 1 then length mean else length observation)"
    using broadcast2_length[OF d[unfolded np_sub_def]] by simp
  have len_t: "length total = (if length d = 1 then length total_stddev else length d)"
    using broadcast2_length[OF total[unfolded np_div_def]] by simp
  have shape: "length observation = length mean \<and> length total_stddev = length mean
          \<longrightarrow> length total = length mean"
    using len_d len_t by auto
  have elems: "total ! k = (ln (bidx observation k) - bidx mean k) / bidx total_stddev k"
    if k: "k < length total" for k
  proof -
    have t: "total ! k = bidx d k / bidx total_stddev k"
      using broadcast2_nth[OF total[unfolded np_div_def] k] .
    have kd: "(if length d = 1 then 0 else k) < length d"
      using k len_t by (auto split: if_splits)
    have "bidx d k = d ! (if length d = 1 then 0 else k)" by (simp add: bidx_def)
    also have "\<dots> = bidx (map ln observation) (if length d = 1 then 0 else k)
                  - bidx mean (if length d = 1 then 0 else k)"
      using broadcast2_nth[OF d[unfolded np_sub_def] kd] .
    also have "\<dots> = ln (bidx observation k) - bidx mean k"
      using len_d kd by (auto simp: bidx_def split: if_splits)
    finally show ?thesis using t by simp
  qed
  have rt: "bidx observation k = exp (bidx mean k + total ! k * bidx total_stddev k)"
    if "k < length total" "0 < bidx observation k" "bidx total_stddev k \<noteq> 0" for k
    using elems[OF that(1)] that(2,3) by simp
  from obs mean sd res v r cx' shape elems rt show ?thesis
    by (intro exI[of _ observation] exI[of _ mean] exI[of _ total_stddev] exI[of _ r]
        exI[of _ total]) simp
qed

theorem total_residual_formula_witness:
  "\<exists>cx' r. calculate_residuals
       \<lparr> gmpe_list = [(''G'', example_gsim)], imts = [Scalar ''PGV''], types = Map.empty,
         residuals = [(''G'', Scalar ''PGV'') \<mapsto> Some [(''Total'', [])]],
         modelled = Map.empty, unique_indices = Map.empty, gmpe_sa_limits = Map.empty,
         contexts = None \<rparr>
       (example_context\<lparr>Expected :=
          [(''G'', Scalar ''PGV'') \<mapsto> Some [(''Mean'', [- 1, - 1]), (''Total'', [1, 1])]]\<rparr>)
       True = Inr cx'
     \<and> Residual cx' (''G'', Scalar ''PGV'') = Some (Some r)
     \<and> map_of r ''Total'' = Some [(ln 1 - (- 1)) / 1, (ln 1 - (- 1)) / 1]"
proof -
  let ?S = "\<lparr> gmpe_list = [(''G'', example_gsim)], imts = [Scalar ''PGV''], types = Map.empty,
         residuals = [(''G'', Scalar ''PGV'') \<mapsto> Some [(''Total'', [])]],
         modelled = Map.empty, unique_indices = Map.empty, gmpe_sa_limits = Map.empty,
         contexts = None \<rparr>"
  let ?C = "example_context\<lparr>Expected :=
          [(''G'', Scalar ''PGV'') \<mapsto> Some [(''Mean'', [- 1, - 1]), (''Total'', [1, 1])]]\<rparr>"
  have run: "calculate_residuals ?S ?C True =
      Inr (?C\<lparr>Residual := map_of [((''G'', Scalar ''PGV''), Some [(''Total'', [1, 1])])]\<rparr>)"
    by (simp add: calculate_residuals_def calculate_residuals_pair_def tabulate2_def ebind_def
        lookup_def subscript_def getitem_def falsy_def example_context_def np_sub_def np_div_def
        broadcast2_def)
  have g: "''G'' \<in> set (map fst (gmpe_list ?S))" and i: "Scalar ''PGV'' \<in> set (imts ?S)"
    by simp_all
  have e: "Expected ?C (''G'', Scalar ''PGV'') = Some (Some [(''Mean'', [- 1, - 1]), (''Total'', [1, 1])])"
    by simp
  from total_residual_formula[OF run g i e]
  obtain observation mean total_stddev r total where
    o: "Observations ?C (Scalar ''PGV'') = Some observation"
    and m: "map_of [(''Mean'', [- 1, - 1]), (''Total'', [1, 1 :: real])] ''Mean'' = Some mean"
    and s: "map_of [(''Mean'', [- 1, - 1]), (''Total'', [1, 1 :: real])] ''Total'' = Some total_stddev"
    and r: "Residual (?C\<lparr>Residual := map_of [((''G'', Scalar ''PGV''), Some [(''Total'', [1, 1])])]\<rparr>)
              (''G'', Scalar ''PGV'') = Some (Some r)"
    and t: "map_of r ''Total'' = Some total"
    and len: "length observation = length mean \<and> length total_stddev = length mean
          \<longrightarrow> length total = length mean"
    and el: "\<forall>k<length total.
          total ! k = (ln (bidx observation k) - bidx mean k) / bidx total_stddev k
        \<and> (0 < bidx observation k \<and> bidx total_stddev k \<noteq> 0 \<longrightarrow>
             bidx observation k = exp (bidx mean k + total ! k * bidx total_stddev k))"
    by auto
  from o have o': "observation = [1, 1]" by (simp add: example_context_def)
  from m have m': "mean = [- 1, - 1]" by simp
  from s have s': "total_stddev = [1, 1]" by simp
  from len o' m' s' have l2: "length total = 2" by simp
  have "total ! 0 = (ln 1 - (- 1)) / 1"
    using el[rule_format, of 0] l2 o' m' s' by (simp add: bidx_def)
  moreover have "total ! 1 = (ln 1 - (- 1)) / 1"
    using el[rule_format, of 1] l2 o' m' s' by (simp add: bidx_def)
  ultimately have "total = [(ln 1 - (- 1)) / 1, (ln 1 - (- 1)) / 1]"
    using l2 by (intro nth_equalityI) (auto simp: less_Suc_eq numeral_2_eq_2)
  with run r t show ?thesis by blast
qed

subsection \<open>Distinctiveness\<close>

lemma traverse_Inr:
  "traverse f xs = Inr ys \<Longrightarrow> list_all2 (\<lambda>x y. f x = Inr y) xs ys"
proof (induction xs arbitrary: ys)
  case Nil
  then show ?case by simp
next
  case (Cons x xs)
  then show ?case by (auto simp: ebind_Inr_iff)
qed

lemma traverse_upt:
  assumes "traverse f [0..<n] = Inr ys"
  shows "length ys = n" and "i < n \<Longrightarrow> f i = Inr (ys ! i)"
  using traverse_Inr[OF assms] by (auto simp: list_all2_conv_all_nth)

lemma count_less_row_swap:
  "length (filter (\<lambda>(x, y). x < y) (zip s r)) = length (filter (\<lambda>(x, y). y < x) (zip r s))"
proof (induction r arbitrary: s)
  case Nil
  then show ?case by simp
next
  case (Cons a r)
  then show ?case by (cases s) auto
qed

lemma count_less_row_bound:
  "\<bar>count_less_row r s - count_less_row s r\<bar> \<le> int (min (length r) (length s))"
proof -
  have "length (filter (\<lambda>(x, y). x < y) (zip r s)) + length (filter (\<lambda>(x, y). y < x) (zip r s))
      \<le> length (zip r s)" for r s :: ndarray
  proof (induction r arbitrary: s)
    case Nil
    then show ?case by simp
  next
    case (Cons a r)
    show ?case
    proof (cases s)
      case Nil
      then show ?thesis by simp
    next
      case (Cons b s')
      with Cons.IH[of s'] show ?thesis by auto
    qed
  qed
  from this[of r s] have "length (filter (\<lambda>(x, y). x < y) (zip r s))
      + length (filter (\<lambda>(x, y). y < x) (zip r s)) \<le> min (length r) (length s)"
    by simp
  then show ?thesis
    unfolding count_less_row_def count_less_row_swap[of s r] by linarith
qed

lemma count_less_bound:
  assumes "\<forall>r \<in> set a. length r \<le> n" 
  shows "\<bar>count_less a b - count_less b a\<bar> \<le> int (length a * n)"
  using assms
proof (induction a arbitrary: b)
  case Nil
  then show ?case by (simp add: count_less_def)
next
  case (Cons r a)
  show ?case
  proof (cases b)
    case Nil
    then show ?thesis by (simp add: count_less_def)
  next
    case (Cons s b')
    have 1: "\<bar>count_less_row r s - count_less_row s r\<bar> \<le> int n"
      using count_less_row_bound[of r s] Cons.prems by auto
    have 2: "\<bar>count_less a b' - count_less b' a\<bar> \<le> int (length a * n)"
      using Cons.IH[of b'] Cons.prems by simp
    have "count_less (r # a) b - count_less b (r # a) =
        (count_less_row r s - count_less_row s r) + (count_less a b' - count_less b' a)"
      by (simp add: count_less_def Cons)
    with 1 2 show ?thesis by (simp add: algebra_simps)
  qed
qed

lemma ratio_bound:
  fixes c :: int and d :: real
  assumes "\<bar>c\<bar> \<le> int n" and "d = real n" and "d \<noteq> 0"
  shows "- 1 \<le> real_of_int c / d \<and> real_of_int c / d \<le> 1"
proof -
  have d: "0 < d" using assms(2,3) by simp
  have "\<bar>real_of_int c\<bar> \<le> d" using assms(1,2) by linarith
  then have "\<bar>real_of_int c / d\<bar> \<le> 1" using d by (simp add: field_simps)
  then show ?thesis by linarith
qed


lemma getrow_Inr_iff: "getrow xs i = Inr x \<longleftrightarrow> i < length xs \<and> x = xs ! i"
  by (auto simp: getrow_def)

lemma py_div_Inr_iff: "py_div x y = Inr z \<longleftrightarrow> y \<noteq> 0 \<and> z = x / y"
  by (auto simp: py_div_def)

lemma distinctiveness_summed_props:
  assumes x: "distinctiveness_summed outputs (real nb) (real ni) i j = Inr x"
    and y: "distinctiveness_summed outputs (real nb) (real ni) j i = Inr y"
    and shape: "\<forall>m \<in> set outputs. length m = ni \<and> (\<forall>r \<in> set m. length r = nb)"
  shows "- 1 \<le> x \<and> x \<le> 1 \<and> x = - y"
proof (cases "i = j")
  case True
  with x y show ?thesis by (simp add: distinctiveness_summed_def)
next
  case False
  from x False have i: "i < length outputs" and j: "j < length outputs"
    and nz: "real nb * real ni \<noteq> 0"
    and xv: "x = real_of_int (count_less (outputs ! i) (outputs ! j)
                 - count_less (outputs ! j) (outputs ! i)) / (real nb * real ni)"
    by (auto simp: distinctiveness_summed_def ebind_Inr_iff getrow_Inr_iff py_div_Inr_iff)
  from y False have
    yv: "y = real_of_int (count_less (outputs ! j) (outputs ! i)
                 - count_less (outputs ! i) (outputs ! j)) / (real nb * real ni)"
    by (auto simp: distinctiveness_summed_def ebind_Inr_iff getrow_Inr_iff py_div_Inr_iff)
  from shape i have li: "length (outputs ! i) = ni" and ri: "\<forall>r \<in> set (outputs ! i). length r \<le> nb"
    by (auto dest: nth_mem)
  have b: "\<bar>count_less (outputs ! i) (outputs ! j) - count_less (outputs ! j) (outputs ! i)\<bar>
      \<le> int (ni * nb)"
    using count_less_bound[OF ri, of "outputs ! j"] li by simp
  have d: "real nb * real ni = real (ni * nb)" by simp
  from ratio_bound[OF b d] nz xv have "- 1 \<le> x \<and> x \<le> 1" by simp
  moreover from xv yv have "x = - y"
    by (simp add: minus_divide_left)
  ultimately show ?thesis by simp
qed

lemma distinctiveness_per_imt_props:
  assumes x: "distinctiveness_per_imt outputs (real nb) i j k = Inr x"
    and y: "distinctiveness_per_imt outputs (real nb) j i k = Inr y"
    and shape: "\<forall>m \<in> set outputs. length m = ni \<and> (\<forall>r \<in> set m. length r = nb)"
  shows "- 1 \<le> x \<and> x \<le> 1 \<and> x = - y"
proof -
  from x have i: "i < length outputs" and ki: "k < length (outputs ! i)"
    and nz: "real nb \<noteq> 0"
    and xv: "x = real_of_int (count_less_row (outputs ! i ! k) (outputs ! j ! k)
                 - count_less_row (outputs ! j ! k) (outputs ! i ! k)) / real nb"
    by (auto simp: distinctiveness_per_imt_def ebind_Inr_iff getrow_Inr_iff py_div_Inr_iff)
  from y have
    yv: "y = real_of_int (count_less_row (outputs ! j ! k) (outputs ! i ! k)
                 - count_less_row (outputs ! i ! k) (outputs ! j ! k)) / real nb"
    by (auto simp: distinctiveness_per_imt_def ebind_Inr_iff getrow_Inr_iff py_div_Inr_iff)
  from shape i ki have "length (outputs ! i ! k) = nb"
    by (auto dest: nth_mem)
  then have b: "\<bar>count_less_row (outputs ! i ! k) (outputs ! j ! k)
        - count_less_row (outputs ! j ! k) (outputs ! i ! k)\<bar> \<le> int nb"
    using count_less_row_bound[of "outputs ! i ! k" "outputs ! j ! k"] by simp
  from ratio_bound[OF b refl] nz xv have "- 1 \<le> x \<and> x \<le> 1" by simp
  moreover from xv yv have "x = - y"
    by (simp add: minus_divide_left)
  ultimately show ?thesis by simp
qed

lemma get_distinctiveness_summed_Inr:
  assumes "get_distinctiveness self outputs nb True = Inr d"
  shows "\<exists>a. traverse (\<lambda>i. traverse (distinctiveness_summed outputs (real nb) (real (length (imts self))) i)
            [0..<length (gmpe_list self)]) [0..<length (gmpe_list self)] = Inr a \<and> d = Summed a"
  using assms unfolding get_distinctiveness_def Let_def
  by (auto simp: ebind_Inr_iff)

lemma get_distinctiveness_per_imt_Inr:
  assumes "get_distinctiveness self outputs nb False = Inr d"
  shows "\<exists>a. traverse (\<lambda>i. traverse (\<lambda>j. if i = j then Inr (replicate (length (imts self)) 0)
     else traverse (distinctiveness_per_imt outputs (real nb) i j) [0..<length (imts self)])
            [0..<length (gmpe_list self)]) [0..<length (gmpe_list self)] = Inr a \<and> d = Per_IMT a"
  using assms unfolding get_distinctiveness_def Let_def
  by (auto simp: ebind_Inr_iff)

lemma traverse2_upt:
  assumes "traverse (\<lambda>i. traverse (f i) [0..<m]) [0..<n] = Inr a" and "i < n" and "j < m"
  shows "f i j = Inr (a ! i ! j)"
proof -
  from traverse_upt(2)[OF assms(1,2)] have "traverse (f i) [0..<m] = Inr (a ! i)" .
  from traverse_upt(2)[OF this assms(3)] show ?thesis .
qed


text \<open>
  Claim C8. When \<^verbatim>\<open>get_distinctiveness\<close> returns for a cube of the shape that
  \<^verbatim>\<open>bootstrap_multivariate_llhvalues\<close> builds (one matrix per model, of one row per IMT
  and one column per bootstrap draw), every value it returns lies in \<open>[-1, 1]\<close>, and
  \<open>distinctiveness(i, j) = - distinctiveness(j, i)\<close> for all models \<open>i\<close> and \<open>j\<close>, both
  in the mode summed over the IMTs and in the mode per IMT.
\<close>

theorem distinctiveness_range_antisymmetric:
  assumes run: "get_distinctiveness self outputs nb sum_imts = Inr d"
    and shape: "\<forall>m \<in> set outputs. length m = length (imts self) \<and> (\<forall>r \<in> set m. length r = nb)"
  shows "case d of
      Summed a \<Rightarrow>
        (\<forall>i<length (gmpe_list self). \<forall>j<length (gmpe_list self).
           - 1 \<le> a ! i ! j \<and> a ! i ! j \<le> 1 \<and> a ! i ! j = - (a ! j ! i))
    | Per_IMT a \<Rightarrow>
        (\<forall>i<length (gmpe_list self). \<forall>j<length (gmpe_list self). \<forall>k<length (imts self).
           - 1 \<le> a ! i ! j ! k \<and> a ! i ! j ! k \<le> 1 \<and> a ! i ! j ! k = - (a ! j ! i ! k))"
proof (cases sum_imts)
  case True
  with run have "get_distinctiveness self outputs nb True = Inr d" by simp
  then obtain a where
    t: "traverse (\<lambda>i. traverse (distinctiveness_summed outputs (real nb) (real (length (imts self))) i)
            [0..<length (gmpe_list self)]) [0..<length (gmpe_list self)] = Inr a"
    and d: "d = Summed a"
    using get_distinctiveness_summed_Inr by blast
  have "- 1 \<le> a ! i ! j \<and> a ! i ! j \<le> 1 \<and> a ! i ! j = - (a ! j ! i)"
    if "i < length (gmpe_list self)" "j < length (gmpe_list self)" for i j
    using distinctiveness_summed_props[OF traverse2_upt[OF t that] traverse2_upt[OF t that(2,1)] shape] .
  then show ?thesis unfolding d distinctiveness.case by blast
next
  case False
  let ?n = "length (gmpe_list self)"
  let ?ni = "length (imts self)"
  from run False have "get_distinctiveness self outputs nb False = Inr d" by simp
  then obtain a where
    t: "traverse (\<lambda>i. traverse (\<lambda>j. if i = j then Inr (replicate ?ni 0)
     else traverse (distinctiveness_per_imt outputs (real nb) i j) [0..<?ni])
            [0..<?n]) [0..<?n] = Inr a"
    and d: "d = Per_IMT a"
    using get_distinctiveness_per_imt_Inr by blast
  have "- 1 \<le> a ! i ! j ! k \<and> a ! i ! j ! k \<le> 1 \<and> a ! i ! j ! k = - (a ! j ! i ! k)"
    if ij: "i < ?n" "j < ?n" and k: "k < ?ni" for i j k
  proof (cases "i = j")
    case True
    from traverse2_upt[OF t ij] True have "a ! i ! j = replicate ?ni 0" by simp
    with k True show ?thesis by simp
  next
    case ne: False
    from traverse2_upt[OF t ij] ne
    have 1: "traverse (distinctiveness_per_imt outputs (real nb) i j) [0..<?ni] = Inr (a ! i ! j)"
      by simp
    from traverse2_upt[OF t ij(2,1)] ne
    have 2: "traverse (distinctiveness_per_imt outputs (real nb) j i) [0..<?ni] = Inr (a ! j ! i)"
      by simp
    from distinctiveness_per_imt_props[OF traverse_upt(2)[OF 1 k] traverse_upt(2)[OF 2 k] shape]
    show ?thesis .
  qed
  then show ?thesis unfolding d distinctiveness.case by blast
qed


theorem distinctiveness_range_antisymmetric_witness:
  "\<exists>a. get_distinctiveness
        \<lparr> gmpe_list = [(''A'', example_gsim), (''B'', example_gsim)], imts = [Scalar ''PGV''],
          types = Map.empty, residuals = Map.empty, modelled = Map.empty,
          unique_indices = Map.empty, gmpe_sa_limits = Map.empty, contexts = None \<rparr>
        [[[1, 1]], [[2, 2]]] 2 True = Inr (Summed a)
     \<and> - 1 \<le> a ! 0 ! 1 \<and> a ! 0 ! 1 \<le> 1 \<and> a ! 0 ! 1 = - (a ! 1 ! 0)"
proof -
  let ?S = "\<lparr> gmpe_list = [(''A'', example_gsim), (''B'', example_gsim)], imts = [Scalar ''PGV''],
          types = Map.empty, residuals = Map.empty, modelled = Map.empty,
          unique_indices = Map.empty, gmpe_sa_limits = Map.empty, contexts = None \<rparr>"
  have run: "get_distinctiveness ?S [[[1, 1]], [[2, 2]]] 2 True = Inr (Summed [[0, 1], [- 1, 0]])"
    by (simp add: get_distinctiveness_def distinctiveness_summed_def upt_conv_Cons ebind_def
        getrow_def py_div_def count_less_def count_less_row_def)
  have shape: "\<forall>m \<in> set [[[1, 1]], [[2, 2 :: real]]]. length m = length (imts ?S)
      \<and> (\<forall>r \<in> set m. length r = 2)"
    by simp
  from distinctiveness_range_antisymmetric[OF run shape]
  have "- 1 \<le> [[0, 1], [- 1, 0 :: real]] ! 0 ! 1 \<and> [[0, 1], [- 1, 0 :: real]] ! 0 ! 1 \<le> 1
      \<and> [[0, 1], [- 1, 0 :: real]] ! 0 ! 1 = - ([[0, 1], [- 1, 0 :: real]] ! 1 ! 0)"
    by simp
  with run show ?thesis by blast
qed

subsection \<open>Loops that update a state\<close>

lemma efold_invariant:
  assumes "efold f xs s = Inr s'" and "I s"
    and "\<And>x s t. x \<in> set xs \<Longrightarrow> I s \<Longrightarrow> f x s = Inr t \<Longrightarrow> I t"
  shows "I s'"
  using assms
proof (induction xs arbitrary: s)
  case Nil
  then show ?case by simp
next
  case (Cons x xs)
  from Cons.prems(1) obtain t where t: "f x s = Inr t" and rest: "efold f xs t = Inr s'"
    by (auto simp: ebind_Inr_iff)
  have It: "I t" using Cons.prems(3)[OF _ Cons.prems(2) t] by simp
  show ?case
  proof (rule Cons.IH[OF rest It])
    fix x' s t assume "x' \<in> set xs" "I s" "f x' s = Inr t"
    then show "I t" using Cons.prems(3)[of x' s t] by simp
  qed
qed

lemma efold_established:
  assumes run: "efold f xs s = Inr s'" and mem: "x \<in> set xs" and "I s"
    and inv: "\<And>y s t. I s \<Longrightarrow> f y s = Inr t \<Longrightarrow> I t"
    and est: "\<And>s t. I s \<Longrightarrow> f x s = Inr t \<Longrightarrow> P t"
    and pres: "\<And>y s t. I s \<Longrightarrow> P s \<Longrightarrow> f y s = Inr t \<Longrightarrow> P t"
  shows "P s'"
  using run mem \<open>I s\<close>
proof (induction xs arbitrary: s)
  case Nil
  then show ?case by simp
next
  case (Cons y ys)
  from Cons.prems(1) obtain t where t: "f y s = Inr t" and rest: "efold f ys t = Inr s'"
    by (auto simp: ebind_Inr_iff)
  have It: "I t" using inv[OF Cons.prems(3) t] .
  show ?case
  proof (cases "x \<in> set ys")
    case True
    from Cons.IH[OF rest True It] show ?thesis .
  next
    case False
    with Cons.prems(2) have "y = x" by simp
    with est[OF Cons.prems(3)] t have "P t" by simp
    with It have "I t \<and> P t" by simp
    from efold_invariant[where I="\<lambda>s. I s \<and> P s", OF rest this] inv pres
    show ?thesis by blast
  qed
qed

subsection \<open>Single-station analysis\<close>

lemma set_analysis_Inr_iff:
  "set_analysis k name v r = Inr r' \<longleftrightarrow>
     (\<exists>a. site_analysis r k = Some a
        \<and> r' = r\<lparr>site_analysis := (site_analysis r)(k \<mapsto> AList.update name v a)\<rparr>)"
  by (auto simp: set_analysis_def ebind_Inr_iff lookup_Inr_iff)

lemma store_item_Inr_iff:
  "store_item store k name = Inr v \<longleftrightarrow>
     (\<exists>kvs. store k = Some (Some kvs) \<and> map_of kvs name = Some v)"
  by (auto simp: store_item_def ebind_Inr_iff lookup_Inr_iff subscript_def getitem_Inr_iff
      split: option.splits)

lemma get_delta_s2ss_Inr_iff:
  "get_delta_s2ss xs n = Inr d \<longleftrightarrow> n \<noteq> 0 \<and> d = 1 / real n * sum_list xs"
  by (auto simp: get_delta_s2ss_def ebind_Inr_iff py_div_Inr_iff)

lemma site_statistics_pair_frame:
  assumes "site_statistics_pair t_resid k resid = Inr resid'"
  shows "residuals resid' = residuals resid \<and> modelled resid' = modelled resid
    \<and> (\<forall>k'. k' \<noteq> k \<longrightarrow> site_analysis resid' k' = site_analysis resid k')"
  using assms unfolding site_statistics_pair_def Let_def
  by (auto simp: ebind_Inr_iff set_analysis_Inr_iff lookup_Inr_iff
      split: if_splits option.splits)


lemma site_statistics_pair_result:
  assumes run: "site_statistics_pair t_resid k resid = Inr resid'"
    and copy: "residuals resid = residuals t_resid"
    and entry: "residuals t_resid k = Some (Some kvs)"
    and tot: "map_of kvs ''Total'' = Some tot"
    and intra: "map_of kvs ''Intra event'' = Some intra"
  shows "length tot \<noteq> 0 \<and> (\<exists>a. site_analysis resid' k = Some a
     \<and> map_of a ''dS2ss'' = Some (Num (1 / real (length tot) * sum_list intra))
     \<and> map_of a ''dWo,es'' =
         Some (Arr (map (\<lambda>x. x - 1 / real (length tot) * sum_list intra) intra))
     \<and> map_of a ''phi_ss,s'' =
         Some (Num (get_single_station_phi intra (1 / real (length tot) * sum_list intra)
                      (length tot))))"
proof -
  have ne: "kvs \<noteq> []" using tot by auto
  show ?thesis
    using run unfolding site_statistics_pair_def Let_def
    by (auto simp: ebind_Inr_iff set_analysis_Inr_iff lookup_Inr_iff store_item_Inr_iff
        get_delta_s2ss_Inr_iff getitem_Inr_iff subscript_Some falsy_def copy entry tot intra ne
        update_conv'
        split: if_splits option.splits)
qed


lemma site_statistics_result:
  assumes run: "site_statistics self t_resid = Inr resid'"
    and g: "g \<in> set (map fst (ssa_gmpe_list self))" and i: "i \<in> set (ssa_imts self)"
    and entry: "residuals t_resid (g, i) = Some (Some kvs)"
    and tot: "map_of kvs ''Total'' = Some tot"
    and intra: "map_of kvs ''Intra event'' = Some intra"
  shows "length tot \<noteq> 0 \<and> site_formulas intra (length tot) resid' (g, i)"
proof -
  let ?I = "\<lambda>r :: site_residuals_obj. residuals r = residuals t_resid"
  let ?P = "\<lambda>r. length tot \<noteq> 0 \<and> site_formulas intra (length tot) r (g, i)"
  have mem: "(g, i) \<in> set (List.product (map fst (ssa_gmpe_list self)) (ssa_imts self))"
    using g i by simp
  show ?thesis
  proof (rule efold_established[where I = ?I and P = ?P,
        OF run[unfolded site_statistics_def] mem])
    show "?I t_resid" by simp
  next
    fix y s t assume "?I s" "site_statistics_pair t_resid y s = Inr t"
    then show "?I t" using site_statistics_pair_frame by metis
  next
    fix s t assume "?I s" "site_statistics_pair t_resid (g, i) s = Inr t"
    from site_statistics_pair_result[OF this(2,1) entry tot intra]
    show "?P t" by (simp add: site_formulas_def)
  next
    fix y s t assume I: "?I s" and P: "?P s" and step: "site_statistics_pair t_resid y s = Inr t"
    show "?P t"
    proof (cases "y = (g, i)")
      case True
      from site_statistics_pair_result[OF step[unfolded True] I entry tot intra]
      show ?thesis by (simp add: site_formulas_def)
    next
      case False
      with site_statistics_pair_frame[OF step]
      have "site_analysis t (g, i) = site_analysis s (g, i)" by simp
      with P show ?thesis by (simp add: site_formulas_def)
    qed
  qed
qed


text \<open>
  Claim C9. For each analysed site, each model and each IMT whose stored residuals have
  a within-event part, \<^verbatim>\<open>residual_statistics\<close> leaves in the site's analysis the bias
  \<open>dS2Ss\<close>, the arithmetic mean of the site's intra-event residuals, the corrected
  residuals \<open>dWo,es = intra - dS2Ss\<close>, and \<open>phi_ss,s = sqrt (\<Sigma>(intra - dS2Ss)\<^sup>2 / (n - 1))\<close>,
  where \<open>n\<close> is the number of records of the site (the length of the stored arrays; for
  \<open>phi_ss,s\<close> at least two, so that the divisor is not zero).
\<close>

theorem single_station_statistics:
  assumes run: "residual_statistics self = Inr self'"
    and s: "s < length (site_residuals self)"
    and g: "g \<in> set (map fst (ssa_gmpe_list self))" and i: "i \<in> set (ssa_imts self)"
    and entry: "residuals (site_residuals self ! s) (g, i) = Some (Some kvs)"
    and tot: "map_of kvs ''Total'' = Some tot"
    and intra: "map_of kvs ''Intra event'' = Some intra"
    and n: "length intra = length tot"
  shows "\<exists>a. site_analysis (site_residuals self' ! s) (g, i) = Some a
     \<and> map_of a ''dS2ss'' = Some (Num (sum_list intra / real (length intra)))
     \<and> map_of a ''dWo,es'' =
         Some (Arr (map (\<lambda>x. x - sum_list intra / real (length intra)) intra))
     \<and> (2 \<le> length intra \<longrightarrow> map_of a ''phi_ss,s'' =
         Some (Num (sqrt ((\<Sum>x\<leftarrow>intra. (x - sum_list intra / real (length intra))\<^sup>2)
                          / (real (length intra) - 1)))))"
proof -
  from run obtain out where
    t: "traverse (site_statistics self) (site_residuals self) = Inr out"
    and self': "self' = self\<lparr>site_residuals := out\<rparr>"
    by (auto simp: residual_statistics_def ebind_Inr_iff)
  from traverse_Inr[OF t] s
  have site: "site_statistics self (site_residuals self ! s) = Inr (out ! s)"
    by (auto simp: list_all2_conv_all_nth)
  from site_statistics_result[OF site g i entry tot intra]
  have "site_formulas intra (length tot) (out ! s) (g, i)" by simp
  moreover have "real_of_int (int (length tot) - 1) = real (length tot) - 1" by simp
  ultimately show ?thesis
    unfolding site_formulas_def self' get_single_station_phi_def n by auto
qed

theorem single_station_statistics_witness:
  "\<exists>self' a. residual_statistics example_station = Inr self'
     \<and> site_analysis (site_residuals self' ! 0) (''G'', Scalar ''PGV'') = Some a
     \<and> map_of a ''dS2ss'' = Some (Num 2)
     \<and> map_of a ''dWo,es'' = Some (Arr [- 1, 1])
     \<and> map_of a ''phi_ss,s'' = Some (Num (sqrt 2))"
proof -
  have "\<exists>self'. residual_statistics example_station = Inr self'"
    by (simp add: residual_statistics_def example_station_def site_statistics_def
        site_statistics_pair_def example_site_def ebind_def set_analysis_def store_item_def
        lookup_def subscript_def getitem_def falsy_def get_delta_s2ss_def py_div_def)
  then obtain self' where run: "residual_statistics example_station = Inr self'" ..
  have e: "residuals (site_residuals example_station ! 0) (''G'', Scalar ''PGV'')
      = Some (Some [(''Total'', [2, 4]), (''Inter event'', [1]), (''Intra event'', [1, 3])])"
    by (simp add: example_station_def example_site_def)
  from single_station_statistics[OF run _ _ _ e, of "[2, 4]" "[1, 3]"]
  obtain a where "site_analysis (site_residuals self' ! 0) (''G'', Scalar ''PGV'') = Some a"
    and "map_of a ''dS2ss'' = Some (Num 2)"
    and "map_of a ''dWo,es'' = Some (Arr [- 1, 1])"
    and "map_of a ''phi_ss,s'' = Some (Num (sqrt 2))"
    by (auto simp: example_station_def)
  with run show ?thesis by blast
qed

subsection \<open>Model weights\<close>

lemma llh_weight_Inr:
  assumes "llh_weight llh g = Inr w"
  shows "\<exists>l. map_of llh g = Some l \<and> l (Scalar ''All'') = Some (Some (- log 2 w)) \<and> 0 < w
     \<and> w = 2 powr (- (- log 2 w))"
  using assms
  by (auto simp: llh_weight_def ebind_Inr_iff getitem_Inr_iff lookup_Inr_iff log_powr
      split: option.splits)

lemma normalised_sum:
  fixes ws :: "real list"
  assumes "ws \<noteq> []" and "\<forall>w \<in> set ws. 0 < w"
  shows "0 < sum_list ws" and "sum_list (map (\<lambda>w. w / sum_list ws) ws) = 1"
proof -
  from assms obtain w ws' where ws: "ws = w # ws'" by (cases ws) auto
  have "0 \<le> sum_list ws'" using assms(2) ws by (intro sum_list_nonneg) auto
  then show pos: "0 < sum_list ws" using assms(2) ws by simp
  have "sum_list (map (\<lambda>w. w / sum_list ws) ws) = sum_list ws / sum_list ws"
    using sum_list_mult_const[of "\<lambda>w. w" "inverse (sum_list ws)" ws]
    by (simp add: divide_inverse)
  then show "sum_list (map (\<lambda>w. w / sum_list ws) ws) = 1" using pos by simp
qed


text \<open>
  Claim C7. When \<^verbatim>\<open>get_loglikelihood_values\<close> returns for at least one model, the model
  weights are keyed by the models in order, each weight is \<open>2\<close> to the power of minus
  the model's aggregate (\<^verbatim>\<open>"All"\<close>) log-likelihood divided by the sum of these powers
  over all models, the weights sum to 1, and of two models the one with the strictly
  lower aggregate value has the strictly higher weight.
\<close>

theorem llh_model_weights:
  assumes run: "get_loglikelihood_values self ims = Inr (llh, model_weights)"
    and ne: "gmpe_list self \<noteq> []"
  shows "map fst model_weights = map fst (gmpe_list self)
     \<and> sum_list (map snd model_weights) = 1
     \<and> (\<exists>all_llh. length all_llh = length (gmpe_list self)
          \<and> (\<forall>k<length (gmpe_list self). \<exists>l.
                 map_of llh (fst (gmpe_list self ! k)) = Some l
               \<and> l (Scalar ''All'') = Some (Some (all_llh ! k)))
          \<and> (\<forall>k<length (gmpe_list self).
                 snd (model_weights ! k) = 2 powr (- all_llh ! k) / (\<Sum>v\<leftarrow>all_llh. 2 powr (- v)))
          \<and> (\<forall>a<length (gmpe_list self). \<forall>b<length (gmpe_list self).
                 all_llh ! a < all_llh ! b \<longrightarrow> snd (model_weights ! b) < snd (model_weights ! a)))"
proof -
  let ?gs = "map fst (gmpe_list self)"
  let ?n = "length (gmpe_list self)"
  from run obtain weights where
    w: "traverse (llh_weight llh) ?gs = Inr weights"
    and mw: "model_weights = zip ?gs (map (\<lambda>w. w / sum_list weights) weights)"
    by (auto simp: get_loglikelihood_values_def ebind_Inr_iff)
  from traverse_Inr[OF w] have len: "length weights = ?n"
    and each: "\<And>k. k < ?n \<Longrightarrow> llh_weight llh (?gs ! k) = Inr (weights ! k)"
    by (auto simp: list_all2_conv_all_nth)
  define all_llh where "all_llh = map (\<lambda>w. - log 2 w) weights"
  have props: "\<exists>l. map_of llh (fst (gmpe_list self ! k)) = Some l
      \<and> l (Scalar ''All'') = Some (Some (all_llh ! k))" 
    and pos: "0 < weights ! k" and val: "weights ! k = 2 powr (- all_llh ! k)"
    if "k < ?n" for k
    using llh_weight_Inr[OF each[OF that]] that len by (auto simp: all_llh_def)
  have wne: "weights \<noteq> []" using ne len by auto
  have wpos: "\<forall>w \<in> set weights. 0 < w"
    using pos len by (auto simp: in_set_conv_nth)
  note S = normalised_sum[OF wne wpos]
  have weq: "weights = map (\<lambda>v. 2 powr (- v)) all_llh"
    using val len by (intro nth_equalityI) (auto simp: all_llh_def)
  have keys: "map fst model_weights = ?gs" using mw len by simp
  have vals: "map snd model_weights = map (\<lambda>w. w / sum_list weights) weights"
    using mw len by simp
  have one: "sum_list (map snd model_weights) = 1" using vals S(2) by simp
  have wk: "snd (model_weights ! k) = 2 powr (- all_llh ! k) / (\<Sum>v\<leftarrow>all_llh. 2 powr (- v))"
    if "k < ?n" for k
  proof -
    have "snd (model_weights ! k) = map snd model_weights ! k"
      using that keys by (metis length_map nth_map)
    also have "\<dots> = weights ! k / sum_list weights" using vals that len by simp
    finally show ?thesis using val[OF that] weq by simp
  qed
  have ord: "snd (model_weights ! b) < snd (model_weights ! a)"
    if "a < ?n" "b < ?n" "all_llh ! a < all_llh ! b" for a b
  proof -
    have "(2::real) powr (- all_llh ! b) < 2 powr (- all_llh ! a)" using that(3) by simp
    moreover have "0 < (\<Sum>v\<leftarrow>all_llh. 2 powr (- v))" using S(1) weq by simp
    ultimately show ?thesis using wk[OF that(1)] wk[OF that(2)]
      by (simp add: divide_strict_right_mono)
  qed
  have "length all_llh = ?n" using len by (simp add: all_llh_def)
  with keys one props wk ord show ?thesis by blast
qed


theorem llh_model_weights_witness:
  "\<exists>llh model_weights.
      get_loglikelihood_values example_two_models [Scalar ''PGV''] = Inr (llh, model_weights)
    \<and> map fst model_weights = [''A'', ''B'']
    \<and> sum_list (map snd model_weights) = 1"
proof -
  have "\<exists>r. get_loglikelihood_values example_two_models [Scalar ''PGV''] = Inr r"
    by (simp add: get_loglikelihood_values_def example_two_models_def llh_gmpe_def llh_imt_def
        llh_weight_def ebind_def lookup_def subscript_def getitem_def falsy_def py_div_def)
  then obtain llh model_weights where
    run: "get_loglikelihood_values example_two_models [Scalar ''PGV''] = Inr (llh, model_weights)"
    by fastforce
  have ne: "gmpe_list example_two_models \<noteq> []" by (simp add: example_two_models_def)
  from llh_model_weights[OF run ne]
  have "map fst model_weights = map fst (gmpe_list example_two_models)"
    and "sum_list (map snd model_weights) = 1"
    by simp_all
  with run show ?thesis by (simp add: example_two_models_def)
qed

subsection \<open>The example analysis\<close>

lemma example_init:
  "Residuals_init [(''G'', example_gsim)] [Scalar ''PGV'', SA 5] = Inr example_residuals"
  by (auto simp: Residuals_init_def example_gsim_def period_limits_def ebind_def empty_store_def
      outside_period_range_def example_residuals_def fun_eq_iff)

lemma example_expected:
  "get_expected_motions (example_residuals\<lparr>contexts := cs\<rparr>) example_context =
     Inr (example_processed\<lparr>Residual := Map.empty\<rparr>)"
  by (auto simp: get_expected_motions_def example_residuals_def example_context_def tabulate2_def
      expected_pair_def ebind_def getitem_def lookup_def example_gsim_def example_processed_def
      fun_eq_iff)

lemma example_calculate:
  "calculate_residuals (example_residuals\<lparr>contexts := cs\<rparr>)
       (example_processed\<lparr>Residual := Map.empty\<rparr>) True = Inr example_processed"
  by (auto simp: calculate_residuals_def calculate_residuals_pair_def example_residuals_def
      tabulate2_def ebind_def getitem_def lookup_def subscript_def falsy_def example_processed_def
      np_sub_def np_div_def np_add_def broadcast2_def get_random_effects_residuals_def fun_eq_iff)


lemma example_aggregate:
  "efold (aggregate_pair example_processed)
     (List.product (map fst (gmpe_list example_residuals)) (remdups (imts example_residuals)))
     (example_residuals\<lparr>contexts := Some []\<rparr>)
   = Inr (example_store\<lparr>contexts := Some []\<rparr>)"
  by (auto simp: example_residuals_def example_processed_def example_store_def aggregate_pair_def
      aggregate_type_def append_to_def is_constant_def ebind_def lookup_def subscript_def
      getitem_def falsy_def fun_eq_iff)

lemma example_get_residuals:
  "get_residuals (\<lambda>v. v) example_residuals [example_context] True = Inr example_store"
proof -
  have conv: "efold (convert_observations (\<lambda>v. v)) (filter is_accel (imts example_residuals))
      example_context = Inr example_context"
    by (auto simp: example_residuals_def is_accel_def convert_observations_def example_context_def
        ebind_def lookup_def fun_eq_iff)
  have fields: "imts (example_residuals\<lparr>contexts := Some []\<rparr>) = imts example_residuals"
    "gmpe_list (example_residuals\<lparr>contexts := Some []\<rparr>) = gmpe_list example_residuals"
    by simp_all
  have fin: "example_store\<lparr>contexts := Some [example_processed]\<rparr> = example_store"
    by (simp add: example_store_def)
  show ?thesis
    unfolding get_residuals_def efold.simps process_context_def fields
    by (simp add: conv example_expected example_calculate example_aggregate ebind_def fin)
qed

subsection \<open>Multivariate log-likelihood values\<close>

lemma example_build_matrices:
  "build_matrices [example_processed] ''G'' (Scalar ''PGV'') =
     Inr ([0, 0], [[2, 1], [1, 2]], [- 1, - 1], 1, 2)"
  by (simp add: build_matrices_def example_processed_def observations_step_def matrices_step_def
      slice_assign_def col_slice_assign_def covariance_def dot_def ebind_def lookup_def
      getitem_def upt_conv_Cons numeral_2_eq_2)

lemma example_multivariate_ll:
  "get_multivariate_ll (\<lambda>m. (1, ln 3)) (\<lambda>m b. Inr [1 / 3, 1 / 3]) [example_processed] ''G''
     (Scalar ''PGV'') = Inr ((2 * ln (2 * pi) + ln 3 + 2 / 3) / 2)"
  by (simp add: get_multivariate_ll_def example_build_matrices ebind_def np_sub_def broadcast2_def
      dot_def)

lemma multivariate_imt_step:
  assumes "multivariate_imt slogdet solve self g j d = Inr d'"
  shows "llh_entry slogdet solve self g j d'"
    and "i \<noteq> j \<Longrightarrow> map_of d' i = map_of d i"
proof -
  from assms obtain r where r: "residuals self (g, j) = Some r"
    and body: "(if r = None then Inr (AList.update j 0 d)
       else ebind (case contexts self of None \<Rightarrow> Inl TypeError
                   | Some cs \<Rightarrow> get_multivariate_ll slogdet solve cs g j)
              (\<lambda>v. Inr (AList.update j v d))) = Inr d'"
    by (auto simp: multivariate_imt_def ebind_Inr_iff lookup_Inr_iff)
  show "llh_entry slogdet solve self g j d'"
  proof (cases "r = None")
    case True
    with body r show ?thesis by (auto simp: llh_entry_def update_conv')
  next
    case False
    with body obtain cs v where "contexts self = Some cs"
      and "get_multivariate_ll slogdet solve cs g j = Inr v" and "d' = AList.update j v d"
      by (auto simp: ebind_Inr_iff split: option.splits)
    with r False show ?thesis by (auto simp: llh_entry_def update_conv')
  qed
  show "map_of d' i = map_of d i" if "i \<noteq> j"
    using body that by (auto simp: ebind_Inr_iff update_conv' split: if_splits)
qed

lemma multivariate_dict:
  assumes run: "efold (multivariate_imt slogdet solve self g) ims d0 = Inr d"
    and i: "i \<in> set ims"
  shows "llh_entry slogdet solve self g i d"
proof (rule efold_established[where I = "\<lambda>d. True" and P = "llh_entry slogdet solve self g i",
      OF run i])
  fix s t assume "multivariate_imt slogdet solve self g i s = Inr t"
  then show "llh_entry slogdet solve self g i t" by (rule multivariate_imt_step(1))
next
  fix y s t
  assume P: "llh_entry slogdet solve self g i s"
    and step: "multivariate_imt slogdet solve self g y s = Inr t"
  show "llh_entry slogdet solve self g i t"
  proof (cases "i = y")
    case True
    with multivariate_imt_step(1)[OF step] show ?thesis by simp
  next
    case False
    from multivariate_imt_step(2)[OF step False] P show ?thesis
      by (simp add: llh_entry_def)
  qed
qed simp_all

lemma sum_llh_Inr_iff:
  "sum_llh d j acc = Inr t \<longleftrightarrow> (\<exists>v. map_of d j = Some v \<and> t = acc + v)"
  by (auto simp: sum_llh_def ebind_Inr_iff getitem_Inr_iff np_isnan_def)

lemma sum_llh_total:
  assumes "efold (sum_llh d) js acc = Inr t"
  shows "t = acc + (\<Sum>j\<leftarrow>js. the (map_of d j))"
  using assms
proof (induction js arbitrary: acc)
  case Nil
  then show ?case by simp
next
  case (Cons j js)
  from Cons.prems obtain acc' where step: "sum_llh d j acc = Inr acc'"
    and rest: "efold (sum_llh d) js acc' = Inr t"
    by (auto simp: ebind_Inr_iff)
  from step obtain v where v: "map_of d j = Some v" "acc' = acc + v"
    by (auto simp: sum_llh_Inr_iff)
  from Cons.IH[OF rest] v show ?case by simp
qed

lemma sum_list_filter_zero:
  fixes f :: "'a \<Rightarrow> real"
  assumes "\<forall>x \<in> set xs. \<not> p x \<longrightarrow> f x = 0"
  shows "sum_list (map f xs) = sum_list (map f (filter p xs))"
  using assms by (induction xs) auto


text \<open>
  Claim C10. For a model and an IMT of the analysis whose entry in the residual store is
  \<^verbatim>\<open>None\<close>, the dictionary of per-IMT values that
  \<^verbatim>\<open>get_multivariate_loglikelihood_values\<close> builds for the model holds exactly 0 for
  that IMT (every other IMT holds the value of \<^verbatim>\<open>get_multivariate_ll\<close>); without
  \<^verbatim>\<open>sum_imts\<close> that dictionary is the model's result, and with \<^verbatim>\<open>sum_imts\<close> the result is
  the sum of the dictionary's values over the IMTs, which equals the sum over the IMTs
  whose entry is not \<^verbatim>\<open>None\<close>: the pair contributes 0.
\<close>

theorem multivariate_llh_inapplicable_pair:
  assumes run: "get_multivariate_loglikelihood_values slogdet solve self sum_imts = Inr res"
    and g: "g \<in> set (map fst (gmpe_list self))" and i: "i \<in> set (imts self)"
    and none: "residuals self (g, i) = Some None"
  shows "\<exists>d. efold (multivariate_imt slogdet solve self g) (imts self) [] = Inr d
     \<and> map_of d i = Some 0
     \<and> (\<forall>j \<in> set (imts self). llh_entry slogdet solve self g j d)
     \<and> (if sum_imts
         then \<exists>t. map_of res g = Some (LLH_total t)
                \<and> t = (\<Sum>j\<leftarrow>imts self. the (map_of d j))
                \<and> t = (\<Sum>j\<leftarrow>filter (\<lambda>j. residuals self (g, j) \<noteq> Some None) (imts self).
                          the (map_of d j))
         else map_of res g = Some (LLH_by_imt d))"
proof -
  from traverse_keyed[OF run[unfolded get_multivariate_loglikelihood_values_def]]
  have keys: "map fst res = map fst (gmpe_list self)"
    and vals: "\<forall>p \<in> set res. multivariate_gmpe slogdet solve self sum_imts (fst p) = Inr (snd p)"
    by simp_all
  from g keys have "g \<in> fst ` set res" by (metis set_map)
  then obtain v where v: "map_of res g = Some v"
    by (metis map_of_eq_None_iff not_Some_eq)
  then have "(g, v) \<in> set res" by (rule map_of_SomeD)
  with vals have gm: "multivariate_gmpe slogdet solve self sum_imts g = Inr v" by force
  then obtain d where d: "efold (multivariate_imt slogdet solve self g) (imts self) [] = Inr d"
    and rest: "(if sum_imts
       then ebind (efold (sum_llh d) (imts self) 0) (\<lambda>total_llh. Inr (LLH_total total_llh))
       else Inr (LLH_by_imt d)) = Inr v"
    by (auto simp: multivariate_gmpe_def ebind_Inr_iff)
  have entries: "\<forall>j \<in> set (imts self). llh_entry slogdet solve self g j d"
    using multivariate_dict[OF d] by blast
  from entries i none have zero: "map_of d i = Some 0"
    by (auto simp: llh_entry_def)
  show ?thesis
  proof (cases sum_imts)
    case True
    with rest obtain t where t: "efold (sum_llh d) (imts self) 0 = Inr t" and vt: "v = LLH_total t"
      by (auto simp: ebind_Inr_iff)
    from sum_llh_total[OF t] have all: "t = (\<Sum>j\<leftarrow>imts self. the (map_of d j))" by simp
    have "\<forall>j \<in> set (imts self). \<not> residuals self (g, j) \<noteq> Some None \<longrightarrow> the (map_of d j) = 0"
      using entries by (auto simp: llh_entry_def)
    from sum_list_filter_zero[of "imts self" "\<lambda>j. residuals self (g, j) \<noteq> Some None"
        "\<lambda>j. the (map_of d j)", OF this] all
    have "t = (\<Sum>j\<leftarrow>filter (\<lambda>j. residuals self (g, j) \<noteq> Some None) (imts self).
                          the (map_of d j))" by simp
    with True d zero entries v vt all show ?thesis by auto
  next
    case False
    with rest have "v = LLH_by_imt d" by simp
    with False d zero entries v show ?thesis by auto
  qed
qed

theorem multivariate_llh_inapplicable_pair_witness:
  "\<exists>res d. get_multivariate_loglikelihood_values (\<lambda>m. (1, ln 3)) (\<lambda>m b. Inr [1 / 3, 1 / 3])
        example_store True = Inr res
     \<and> efold (multivariate_imt (\<lambda>m. (1, ln 3)) (\<lambda>m b. Inr [1 / 3, 1 / 3]) example_store ''G'')
          (imts example_store) [] = Inr d
     \<and> map_of d (SA 5) = Some 0
     \<and> map_of res ''G'' = Some (LLH_total (\<Sum>j\<leftarrow>[Scalar ''PGV'']. the (map_of d j)))"
proof -
  have "\<exists>res. get_multivariate_loglikelihood_values (\<lambda>m. (1, ln 3)) (\<lambda>m b. Inr [1 / 3, 1 / 3])
        example_store True = Inr res"
    by (simp add: get_multivariate_loglikelihood_values_def multivariate_gmpe_def
        multivariate_imt_def sum_llh_def np_isnan_def example_store_def example_multivariate_ll
        ebind_def lookup_def getitem_def)
  then obtain res where run: "get_multivariate_loglikelihood_values (\<lambda>m. (1, ln 3))
      (\<lambda>m b. Inr [1 / 3, 1 / 3]) example_store True = Inr res" ..
  have g: "''G'' \<in> set (map fst (gmpe_list example_store))"
    and i: "SA 5 \<in> set (imts example_store)"
    and none: "residuals example_store (''G'', SA 5) = Some None"
    by (simp_all add: example_store_def)
  have f: "filter (\<lambda>j. residuals example_store (''G'', j) \<noteq> Some None) (imts example_store)
      = [Scalar ''PGV'']"
    by (simp add: example_store_def)
  from multivariate_llh_inapplicable_pair[OF run g i none] show ?thesis
    unfolding f using run by auto
qed

subsection \<open>Statistics of a pair that is not applicable\<close>

lemma llh_raises_without_applicable_imt:
  "get_loglikelihood_values example_store [SA 5] = Inl ZeroDivisionError"
  by (simp add: get_loglikelihood_values_def llh_gmpe_def llh_imt_def example_store_def
      ebind_def lookup_def falsy_def py_div_def)

text \<open>
  Claim C6 says that a spectral IMT outside a model's period range is marked \<^verbatim>\<open>None\<close>
  and that every statistic skips the pair without raising. The code marks the pair, and
  the descriptive statistics, the likelihood and the multivariate log-likelihood skip
  it, but the ranking by Euclidean distance does not: in the analysis of the example
  model for PGV and SA(5), after \<^verbatim>\<open>get_residuals\<close> for one event the pair of SA(5) is
  \<^verbatim>\<open>None\<close> in the store, and \<^verbatim>\<open>_get_edr_gmpe_information\<close>, hence \<^verbatim>\<open>get_edr_values\<close>,
  raises \<open>TypeError\<close> when it subscripts the \<^verbatim>\<open>None\<close> entry of the event's expected
  motions. The log-likelihood skips the pair, and then raises \<open>ZeroDivisionError\<close> when
  no requested IMT is left for the model.
\<close>

theorem edr_raises_on_inapplicable_pair:
  "Residuals_init [(''G'', example_gsim)] [Scalar ''PGV'', SA 5] = Inr example_residuals
   \<and> get_residuals (\<lambda>v. v) example_residuals [example_context] True = Inr example_store
   \<and> residuals example_store (''G'', SA 5) = Some None
   \<and> get_edr_gmpe_information example_store ''G'' = Inl TypeError
   \<and> get_edr_values get_edr example_store bandwidth multiplier = Inl TypeError
   \<and> get_loglikelihood_values example_store [SA 5] = Inl ZeroDivisionError"
proof -
  have info: "get_edr_gmpe_information example_store ''G'' = Inl TypeError"
    by (simp add: get_edr_gmpe_information_def example_store_def edr_step_def
        example_processed_def ebind_def lookup_def subscript_def getitem_def)
  have gl: "map fst (gmpe_list example_store) = [''G'']"
    by (simp add: example_store_def)
  have "get_edr_values get_edr example_store bandwidth multiplier = Inl TypeError"
    unfolding get_edr_values_def gl by (simp add: info ebind_def)
  moreover have "residuals example_store (''G'', SA 5) = Some None"
    by (simp add: example_store_def)
  ultimately show ?thesis
    using example_init example_get_residuals info llh_raises_without_applicable_imt by simp
qed


end
